theory Spec2Isabelle
  imports Complex_Main
begin

section \<open>Python strings\<close>

text \<open>
  A Python \<^verbatim>\<open>str\<close> is a sequence of Unicode code points, and \<^verbatim>\<open>len\<close>, \<^verbatim>\<open>rjust\<close> and
  slicing count code points. A string is therefore a list of code points (natural numbers);
  \<open>py\<close> turns an ASCII literal into that list.
\<close>

type_synonym codepoint = nat
type_synonym pystr = "codepoint list"

abbreviation ord :: "char \<Rightarrow> codepoint" where
  "ord \<equiv> of_char"

definition py :: "string \<Rightarrow> pystr" where
  "py s = map ord s"

text \<open>
  The characters \<^verbatim>\<open>str.split()\<close> treats as whitespace (\<^verbatim>\<open>str.isspace\<close>): TAB..CR, FS..US,
  space, NEL, NBSP and the Unicode space separators.
\<close>

definition isspace :: "codepoint \<Rightarrow> bool" where
  "isspace c \<longleftrightarrow>
     (0x09 \<le> c \<and> c \<le> 0x0D) \<or> (0x1C \<le> c \<and> c \<le> 0x20) \<or> c = 0x85 \<or> c = 0xA0 \<or>
     c = 0x1680 \<or> (0x2000 \<le> c \<and> c \<le> 0x200A) \<or> c = 0x2028 \<or> c = 0x2029 \<or>
     c = 0x202F \<or> c = 0x205F \<or> c = 0x3000"

text \<open>\<^verbatim>\<open>s.replace(old, new)\<close> where \<^verbatim>\<open>old\<close> and \<^verbatim>\<open>new\<close> are one character each.\<close>

definition replace :: "pystr \<Rightarrow> codepoint \<Rightarrow> codepoint \<Rightarrow> pystr" where
  "replace s old new = map (\<lambda>c. if c = old then new else c) s"

text \<open>
  \<^verbatim>\<open>s.split()\<close> with no argument: runs of whitespace separate the tokens, and no token
  is empty.
\<close>

function split :: "pystr \<Rightarrow> pystr list" where
  "split [] = []"
| "split (c # cs) =
     (if isspace c then split cs
      else takeWhile (\<lambda>x. \<not> isspace x) (c # cs) # split (dropWhile (\<lambda>x. \<not> isspace x) cs))"
  by pat_completeness auto
termination
  by (relation "measure length") (auto simp: less_Suc_eq_le length_dropWhile_le)

text \<open>\<^verbatim>\<open>s.rjust(width, fillchar)\<close>: pad on the left; a string already that long is unchanged.\<close>

definition rjust :: "pystr \<Rightarrow> nat \<Rightarrow> codepoint \<Rightarrow> pystr" where
  "rjust s width fillchar = replicate (width - length s) fillchar @ s"

section \<open>Subject ID\<close>

text \<open>
  The notebook computes the subject ID in every loop by the same line:
  \<^verbatim>\<open>subID = pname.replace('_', '\t').replace('-', '\t').split()[0][1:].rjust(2, '0')\<close>
  Indexing the token list with \<^verbatim>\<open>[0]\<close> raises \<^verbatim>\<open>IndexError\<close> when there is no token; the
  slice \<^verbatim>\<open>[1:]\<close> never raises. The type \<open>error\<close> lists the exceptions of the notebook's
  calls.
\<close>

datatype error = IndexError | ValueError | FileNotFoundError | FileExistsError |
  NotADirectoryError | IsADirectoryError | SameFileError

definition tokens :: "pystr \<Rightarrow> pystr list" where
  "tokens pname =
     split (replace (replace pname (ord CHR ''_'') (ord CHR 0x09)) (ord CHR ''-'') (ord CHR 0x09))"

definition subID :: "pystr \<Rightarrow> error + pystr" where
  "subID pname =
     (case tokens pname of
        [] \<Rightarrow> Inl IndexError
      | tok # _ \<Rightarrow> Inr (rjust (drop 1 tok) 2 (ord CHR ''0'')))"

text \<open>Vocabulary of the statements: token delimiters, decimal digits, a well-formed SubjectID.\<close>

definition is_delim :: "codepoint \<Rightarrow> bool" where
  "is_delim c \<longleftrightarrow> c = ord CHR ''_'' \<or> c = ord CHR ''-'' \<or> isspace c"

definition is_digit :: "codepoint \<Rightarrow> bool" where
  "is_digit c \<longleftrightarrow> ord CHR ''0'' \<le> c \<and> c \<le> ord CHR ''9''"

definition is_SubjectID :: "pystr \<Rightarrow> bool" where
  "is_SubjectID s \<longleftrightarrow> length s = 2 \<and> list_all is_digit s"

text \<open>Two folder names that differ only in which of \<^verbatim>\<open>_\<close> and \<^verbatim>\<open>-\<close> stands at a position.\<close>

definition separator_variant :: "pystr \<Rightarrow> pystr \<Rightarrow> bool" where
  "separator_variant a b \<longleftrightarrow>
     list_all2 (\<lambda>x y. x = y \<or> (x \<in> {ord CHR ''_'', ord CHR ''-''} \<and>
                                 y \<in> {ord CHR ''_'', ord CHR ''-''})) a b"

section \<open>Paths\<close>

text \<open>
  \<^verbatim>\<open>s.split(sep)\<close> with a one-character separator: every occurrence of the separator cuts,
  empty pieces are kept, and the result is never empty (the last case below does not
  occur).
\<close>

fun split_sep :: "pystr \<Rightarrow> codepoint \<Rightarrow> pystr list" where
  "split_sep [] sep = [[]]"
| "split_sep (c # cs) sep =
     (if c = sep then [] # split_sep cs sep
      else (case split_sep cs sep of
              piece # pieces \<Rightarrow> (c # piece) # pieces
            | [] \<Rightarrow> [[c]]))"

text \<open>\<^verbatim>\<open>sep.join(xs)\<close>.\<close>

fun join :: "pystr \<Rightarrow> pystr list \<Rightarrow> pystr" where
  "join sep [] = []"
| "join sep [x] = x"
| "join sep (x # y # ys) = x @ sep @ join sep (y # ys)"

text \<open>
  A \<^verbatim>\<open>pathlib\<close> path on POSIX (the notebook sets \<^verbatim>\<open>splitter = '/'\<close>): its root, which is
  empty, \<^verbatim>\<open>/\<close> or \<^verbatim>\<open>//\<close>, and its components after the root. The operator \<^verbatim>\<open>/\<close> parses
  its string operand: a rooted operand replaces the path, any other operand appends its
  components, and empty components and \<^verbatim>\<open>.\<close> are dropped.
\<close>

datatype path = Path (root: pystr) (parts: "pystr list")

definition splitroot :: "pystr \<Rightarrow> pystr \<times> pystr" where
  "splitroot part =
     (if part \<noteq> [] \<and> hd part = ord CHR ''/'' then
        (let stripped_part = dropWhile (\<lambda>c. c = ord CHR ''/'') part
         in if length part - length stripped_part = 2 then (py ''//'', stripped_part)
            else (py ''/'', stripped_part))
      else ([], part))"

definition parse_rel :: "pystr \<Rightarrow> pystr list" where
  "parse_rel rel = filter (\<lambda>x. x \<noteq> [] \<and> x \<noteq> py ''.'') (split_sep rel (ord CHR ''/''))"

definition truediv :: "path \<Rightarrow> pystr \<Rightarrow> path" where
  "truediv p key =
     (case splitroot key of
        (root2, rel) \<Rightarrow>
          if root2 \<noteq> [] then Path root2 (parse_rel rel)
          else Path (root p) (parts p @ parse_rel rel))"

text \<open>\<^verbatim>\<open>str(p)\<close>; the path with no root and no component prints as \<^verbatim>\<open>.\<close>.\<close>

definition str_path :: "path \<Rightarrow> pystr" where
  "str_path p =
     (if root p = [] \<and> parts p = [] then py ''.''
      else root p @ join (py ''/'') (parts p))"

text \<open>\<^verbatim>\<open>p.parent\<close>; a path without components is its own parent.\<close>

definition parent :: "path \<Rightarrow> path" where
  "parent p = Path (root p) (butlast (parts p))"

section \<open>Destination paths\<close>

text \<open>
  The four places where the notebook builds a destination: \<^verbatim>\<open>rawfile\<close> in the behavioural
  loop and in the EEG loop, \<^verbatim>\<open>metadatafile\<close> in the channel-table loop and in the JSON loop.
  Each is
  \<^verbatim>\<open>ROOTPATH / '02_Rawdata' / 'sub-{}'.format(subID) / <dir> / filename\<close> with
  \<^verbatim>\<open>filename = 'sub-{}_task-'.format(subID) + taskname + <suffix>\<close>.
  \<^verbatim>\<open>ROOTPATH\<close> (the parent of the working directory) and \<^verbatim>\<open>taskname\<close> are arguments.
\<close>

definition rawfile_beh :: "path \<Rightarrow> pystr \<Rightarrow> pystr \<Rightarrow> path" where
  "rawfile_beh ROOTPATH taskname sid =
     (let filename = (py ''sub-'' @ sid @ py ''_task-'') @ taskname @ py ''_beh.mat''
      in foldl truediv ROOTPATH [py ''02_Rawdata'', py ''sub-'' @ sid, py ''beh'', filename])"

definition rawfile_eeg :: "path \<Rightarrow> pystr \<Rightarrow> pystr \<Rightarrow> path" where
  "rawfile_eeg ROOTPATH taskname sid =
     (let filename = (py ''sub-'' @ sid @ py ''_task-'') @ taskname @ py ''_eeg.mat''
      in foldl truediv ROOTPATH [py ''02_Rawdata'', py ''sub-'' @ sid, py ''eeg'', filename])"

definition metadatafile_tsv :: "path \<Rightarrow> pystr \<Rightarrow> pystr \<Rightarrow> path" where
  "metadatafile_tsv ROOTPATH taskname sid =
     (let filename = (py ''sub-'' @ sid @ py ''_task-'') @ taskname @ py ''_channels.tsv''
      in foldl truediv ROOTPATH [py ''02_Rawdata'', py ''sub-'' @ sid, py ''eeg'', filename])"

definition metadatafile_json :: "path \<Rightarrow> pystr \<Rightarrow> pystr \<Rightarrow> path" where
  "metadatafile_json ROOTPATH taskname sid =
     (let filename = (py ''sub-'' @ sid @ py ''_task-'') @ taskname @ py ''_eeg.json''
      in foldl truediv ROOTPATH [py ''02_Rawdata'', py ''sub-'' @ sid, py ''eeg'', filename])"

text \<open>
  The canonical form as the specification writes it,
  \<^verbatim>\<open><root>/sub-<SubjectID>/<modality-dir>/sub-<SubjectID>_task-<TaskName>_<suffix>\<close>:
  \<open>CanonicalRel\<close> is the part below the root, \<open>CanonicalPath\<close> the whole string.
\<close>

definition CanonicalRel :: "pystr \<Rightarrow> pystr \<Rightarrow> pystr \<Rightarrow> pystr \<Rightarrow> pystr" where
  "CanonicalRel sid modality_dir taskname suffix =
     py ''sub-'' @ sid @ py ''/'' @ modality_dir @
     py ''/sub-'' @ sid @ py ''_task-'' @ taskname @ py ''_'' @ suffix"

definition CanonicalPath :: "pystr \<Rightarrow> pystr \<Rightarrow> pystr \<Rightarrow> pystr \<Rightarrow> pystr \<Rightarrow> pystr" where
  "CanonicalPath root_dir sid modality_dir taskname suffix =
     root_dir @ py ''/'' @ CanonicalRel sid modality_dir taskname suffix"

text \<open>An operand of \<^verbatim>\<open>/\<close> that is not rooted.\<close>

definition relative_key :: "pystr \<Rightarrow> bool" where
  "relative_key key \<longleftrightarrow> key \<noteq> [] \<and> hd key \<noteq> ord CHR ''/''"

section \<open>Channel table\<close>

text \<open>
  A cell of a \<^verbatim>\<open>pandas\<close> table: a string, an integer, a float, or the missing value. A table
  has a row index \<^verbatim>\<open>0..nrows-1\<close> and named columns, in order.
\<close>

datatype cell = Str pystr | Num int | Flt real | NaN

record frame =
  nrows :: nat
  columns :: "(pystr \<times> cell list) list"

text \<open>
  \<^verbatim>\<open>np.empty([r, c])\<close> allocates without initialising: the entries are whatever the memory
  holds, here the argument \<open>mem\<close>.
\<close>

definition np_empty :: "nat \<Rightarrow> nat \<Rightarrow> (nat \<Rightarrow> nat \<Rightarrow> cell) \<Rightarrow> cell list list" where
  "np_empty r c mem = map (\<lambda>i. map (\<lambda>j. mem i j) [0..<c]) [0..<r]"

text \<open>
  \<^verbatim>\<open>pd.DataFrame(data = d, columns = names)\<close> raises \<^verbatim>\<open>ValueError\<close> unless every row of \<^verbatim>\<open>d\<close>
  has as many entries as there are names.
\<close>

definition DataFrame :: "cell list list \<Rightarrow> pystr list \<Rightarrow> error + frame" where
  "DataFrame data names =
     (if list_all (\<lambda>row. length row = length names) data
      then Inr \<lparr>nrows = length data,
                columns = map (\<lambda>j. (names ! j, map (\<lambda>row. row ! j) data)) [0..<length names]\<rparr>
      else Inl ValueError)"

text \<open>
  What the notebook assigns to a column: a scalar, which \<^verbatim>\<open>pandas\<close> repeats in every row, or
  \<^verbatim>\<open>pd.DataFrame([[v0], [v1], ...])\<close>, a table of one column that is aligned on the row
  index (a row the right-hand side lacks becomes missing, a row it has in excess is
  dropped).
\<close>

datatype assigned = Scalar cell | OneColumn "cell list"

definition reindex :: "nat \<Rightarrow> cell list \<Rightarrow> cell list" where
  "reindex n vs = map (\<lambda>i. if i < length vs then vs ! i else NaN) [0..<n]"

definition broadcast :: "nat \<Rightarrow> assigned \<Rightarrow> cell list" where
  "broadcast n v = (case v of Scalar c \<Rightarrow> replicate n c | OneColumn vs \<Rightarrow> reindex n vs)"

definition setitem :: "frame \<Rightarrow> pystr \<Rightarrow> assigned \<Rightarrow> frame" where
  "setitem df key v =
     (let col = broadcast (nrows df) v
      in if key \<in> set (map fst (columns df))
         then df\<lparr>columns := map (\<lambda>(k, old). if k = key then (k, col) else (k, old)) (columns df)\<rparr>
         else df\<lparr>columns := columns df @ [(key, col)]\<rparr>)"

text \<open>
  \<^verbatim>\<open>df.name = v\<close> for a name that is no attribute of the \<^verbatim>\<open>DataFrame\<close> class (none of the
  twelve column names is one): when \<^verbatim>\<open>name\<close> is a column this is \<^verbatim>\<open>df[name] = v\<close>; otherwise it
  sets a Python attribute and leaves the table as it is.
\<close>

definition setattr :: "frame \<Rightarrow> pystr \<Rightarrow> assigned \<Rightarrow> frame" where
  "setattr df name v = (if name \<in> set (map fst (columns df)) then setitem df name v else df)"

text \<open>\<^verbatim>\<open>df[key]\<close> as a list of cells; \<open>None\<close> stands for \<^verbatim>\<open>KeyError\<close>.\<close>

definition getitem :: "frame \<Rightarrow> pystr \<Rightarrow> cell list option" where
  "getitem df key = map_of (columns df) key"

text \<open>The settings and the body of the channel-table loop, for the subject ID \<open>sid\<close>.\<close>

definition nchannels :: nat where
  "nchannels = 6"

definition ncolumns :: nat where
  "ncolumns = 12"

definition columnNames :: "pystr list" where
  "columnNames = map py [''name'', ''type'', ''units'', ''low_cutoff'', ''high_cutoff'',
     ''reference'', ''group'', ''sampling_frequency'', ''description'', ''notch'', ''status'',
     ''Status_description'']"

definition strs :: "string list \<Rightarrow> assigned" where
  "strs xs = OneColumn (map (\<lambda>x. Str (py x)) xs)"

text \<open>The assignments under \<^verbatim>\<open># Specify properties\<close>, the same for every subject.\<close>

definition properties :: "(pystr \<times> assigned) list" where
  "properties =
     [(py ''name'', strs [''Iz'', ''Oz'', ''POz'', ''O1'', ''O2'', ''TRIG'']),
      (py ''type'', strs [''EEG'', ''EEG'', ''EEG'', ''EEG'', ''EEG'', ''TRIG'']),
      (py ''units'', Scalar (Str [0x3BC, ord CHR ''V''])),
      (py ''low_cutoff'', Scalar (Num 100)),
      (py ''high_cutoff'', Scalar (Num 1)),
      (py ''reference'', strs [''ear'', ''ear'', ''ear'', ''ear'', ''ear'', ''n/a'']),
      (py ''group'', Scalar (Num 1)),
      (py ''sampling_frequency'', Scalar (Num 1200)),
      (py ''description'', Scalar (Str (py ''n/a''))),
      (py ''notch'', Scalar (Num 50))]"

text \<open>The \<^verbatim>\<open>if subID == "01": ... elif subID == "02": ... else: ...\<close> block.\<close>

definition channel_status :: "pystr \<Rightarrow> (pystr \<times> assigned) list" where
  "channel_status sid =
     (if sid = py ''01'' then
        [(py ''status'', strs [''GOOD'', ''BAD'', ''GOOD'', ''GOOD'', ''GOOD'', ''GOOD'']),
         (py ''Status_description'',
          strs [''n/a'', ''Channel exessively noisy through, suspect broken electrode'',
                ''n/a'', ''n/a'', ''n/a'', ''n/a''])]
      else if sid = py ''02'' then
        [(py ''status'', strs [''OK'', ''OK'', ''OK'', ''OK'', ''OK'', ''OK'']),
         (py ''Status_description'',
          Scalar (Str (py ''Regular artifact throughout, suspect electrical interference'')))]
      else
        [(py ''status'', strs [''GOOD'', ''GOOD'', ''GOOD'', ''GOOD'', ''GOOD'', ''GOOD'']),
         (py ''Status_description'', strs [''n/a'', ''n/a'', ''n/a'', ''n/a'', ''n/a'', ''n/a''])])"

definition MetaData :: "(nat \<Rightarrow> nat \<Rightarrow> cell) \<Rightarrow> pystr \<Rightarrow> error + frame" where
  "MetaData mem sid =
     (case DataFrame (np_empty nchannels ncolumns mem) columnNames of
        Inl e \<Rightarrow> Inl e
      | Inr df \<Rightarrow>
          Inr (foldl (\<lambda>df (name, v). setattr df name v) df (properties @ channel_status sid)))"

text \<open>
  \<^verbatim>\<open>str(i)\<close> for an integer, and \<^verbatim>\<open>df.to_csv(file, sep = '\t', na_rep = 'n/a', index = False)\<close>:
  a header line with the column names, then one line per row, the fields separated by TAB
  and each line ended by a newline. A missing cell is written as \<^verbatim>\<open>n/a\<close>. The writer quotes
  a field only when it contains the separator, a double quote or the line end
  (\<^verbatim>\<open>csv.QUOTE_MINIMAL\<close>). How a float prints is the argument \<open>float_repr\<close>.
\<close>

fun digits_nat :: "nat \<Rightarrow> pystr" where
  "digits_nat n =
     (if n < 10 then [ord CHR ''0'' + n]
      else digits_nat (n div 10) @ [ord CHR ''0'' + n mod 10])"

declare digits_nat.simps [simp del]

definition str_int :: "int \<Rightarrow> pystr" where
  "str_int i = (if i < 0 then ord CHR ''-'' # digits_nat (nat (- i)) else digits_nat (nat i))"

definition csv_cell :: "(real \<Rightarrow> pystr) \<Rightarrow> cell \<Rightarrow> pystr" where
  "csv_cell float_repr c =
     (case c of Str s \<Rightarrow> s | Num i \<Rightarrow> str_int i | Flt x \<Rightarrow> float_repr x | NaN \<Rightarrow> py ''n/a'')"

definition csv_quote :: "pystr \<Rightarrow> pystr" where
  "csv_quote field =
     (if list_ex (\<lambda>c. c = ord CHR 0x09 \<or> c = ord CHR 0x22 \<or> c = ord CHR 0x0A) field
      then [ord CHR 0x22] @ concat (map (\<lambda>c. if c = ord CHR 0x22 then [c, c] else [c]) field) @
           [ord CHR 0x22]
      else field)"

definition to_csv_fields :: "(real \<Rightarrow> pystr) \<Rightarrow> frame \<Rightarrow> pystr list list" where
  "to_csv_fields float_repr df =
     map fst (columns df) #
     map (\<lambda>i. map (\<lambda>(name, col). csv_cell float_repr (col ! i)) (columns df)) [0..<nrows df]"

definition to_csv :: "(real \<Rightarrow> pystr) \<Rightarrow> frame \<Rightarrow> pystr" where
  "to_csv float_repr df =
     concat (map (\<lambda>fields. join [ord CHR 0x09] (map csv_quote fields) @ [ord CHR 0x0A])
                 (to_csv_fields float_repr df))"

text \<open>
  What one pass of the channel-table loop writes to \<^verbatim>\<open>metadatafile\<close>, and a column of the
  table it built (\<open>None\<close> when there is no table or no such column).
\<close>

definition channels_tsv :: "(real \<Rightarrow> pystr) \<Rightarrow> (nat \<Rightarrow> nat \<Rightarrow> cell) \<Rightarrow> pystr \<Rightarrow> error + pystr" where
  "channels_tsv float_repr mem sid =
     (case MetaData mem sid of Inl e \<Rightarrow> Inl e | Inr df \<Rightarrow> Inr (to_csv float_repr df))"

definition column :: "error + frame \<Rightarrow> pystr \<Rightarrow> cell list option" where
  "column built key = (case built of Inl e \<Rightarrow> None | Inr df \<Rightarrow> getitem df key)"

text \<open>A sample of uninitialised memory, for the examples.\<close>

definition zeros :: "nat \<Rightarrow> nat \<Rightarrow> cell" where
  "zeros i j = Flt 0"

section \<open>Task document\<close>

text \<open>
  The values \<^verbatim>\<open>json.dump\<close> meets in this notebook: strings, integers and dictionaries with
  string keys, in insertion order.
\<close>

datatype json = JStr pystr | JInt int | JObj (members: "(pystr \<times> json) list")

text \<open>The dictionary \<^verbatim>\<open>metadata\<close>; \<^verbatim>\<open>taskname\<close> is the only name it reads.\<close>

definition metadata :: "pystr \<Rightarrow> json" where
  "metadata taskname =
     JObj
       [(py ''SubjectArtefactDescription'', JStr (py (''Strange Regular artifact - visually looks to be at about 0.5Hz, but re'' @
           ''sistant to filtering. Suspect this is some sort of electrical artifact'' @
           '' in the room - testing was not perfomed in a farraday cage. Should not'' @
           '' effect FFT based anayses''))),
        (py ''TaskName'', JStr taskname),
        (py ''SamplingFrequency'', JInt 1200),
        (py ''PowerLineFrequency'', JInt 50),
        (py ''SoftwareFilters'', JStr (py ''n/a'')),
        (py ''DCOffsetCorrection'', JStr (py ''n/a'')),
        (py ''EEGReference'', JStr (py ''ear'')),
        (py ''EEGGround'', JStr (py ''Cz'')),
        (py ''HardwareFilters'', JObj
         [(py ''highpassfilter'', JObj
           [(py ''CutoffFrequency'', JInt 1)]),
          (py ''lowpassfilter'', JObj
           [(py ''CutoffFrequency'', JInt 100)])]),
        (py ''Manufacturer'', JStr (py ''g.tec'')),
        (py ''ManufacturersModelName'', JStr (py ''g.USBamp'')),
        (py ''SoftwareVersions'', JStr (py ''g.tec API functions running in MATLAB 2017a'')),
        (py ''InstitutionName'', JStr (py ''Queensland Brain Institute, The University of Queensland'')),
        (py ''InstitutionAddress'', JStr (py ''Building 79, The University of Queensland, St Lucia, Australia, 4072'')),
        (py ''EEGChannelCount'', JStr (py ''5'')),
        (py ''TriggerChannelCount'', JStr (py ''1'')),
        (py ''RecordingDuration'', JStr (py ''2939.0933'')),
        (py ''RecordingType'', JStr (py ''continuous'')),
        (py ''TaskDescription'', JStr (py (''We set out to collect an EEG dataset to use to train various machine l'' @
           ''earning algorithms to detect the focus of feature-selective attention.'' @
           '' Subjects were cued to attend to attend to either black or white movin'' @
           ''g dots, and respond to brief periods of coherent motion in the cued co'' @
           ''lour. The display consisted of either both black and white dots, or on'' @
           ''ly the cued colour in randomly interleaved trials. The field of moving'' @
           '' dots in the uncued colour never moved coherently, and should thus not'' @
           '' have captured attention. The fields of dots flickered at 6 and 7.5 Hz'' @
           ''. Colour and frequency were fully counterbalanced. Each trial consiste'' @
           ''d of a 1 second cue followed by 15 s of the dot motion stimulus. ''))),
        (py ''Instructions'', JStr (py (''Participants were informed of the purpose of the study, and instructed'' @
           '' to press the arrow keys corresponding to the direction of any epoch o'' @
           ''f coherent motion they saw in the cued colour.'')))]"

text \<open>
  \<^verbatim>\<open>json.dump(obj, f, indent = 2)\<close>. Strings are written between double quotes with
  \<^verbatim>\<open>ensure_ascii\<close>: the quote, the backslash and the control characters are escaped, and
  every other character outside \<^verbatim>\<open>' '..'~'\<close> becomes a backslash, \<^verbatim>\<open>u\<close> and four
  hexadecimal digits (a surrogate pair above \<^verbatim>\<open>0xFFFF\<close>). A dictionary puts each member on
  a line of its own, indented by two spaces per level, members separated by \<^verbatim>\<open>,\<close> and key
  and value by \<^verbatim>\<open>: \<close>.
\<close>

definition hexdigit :: "nat \<Rightarrow> codepoint" where
  "hexdigit d = (if d < 10 then ord CHR ''0'' + d else ord CHR ''a'' + (d - 10))"

definition hex4 :: "nat \<Rightarrow> pystr" where
  "hex4 n = [hexdigit (n div 4096 mod 16), hexdigit (n div 256 mod 16),
             hexdigit (n div 16 mod 16), hexdigit (n mod 16)]"

definition escape_char :: "codepoint \<Rightarrow> pystr" where
  "escape_char c =
     (if c = ord CHR 0x5C then [ord CHR 0x5C, ord CHR 0x5C]
      else if c = ord CHR 0x22 then [ord CHR 0x5C, ord CHR 0x22]
      else if c = 0x08 then [ord CHR 0x5C, ord CHR ''b'']
      else if c = 0x0C then [ord CHR 0x5C, ord CHR ''f'']
      else if c = 0x0A then [ord CHR 0x5C, ord CHR ''n'']
      else if c = 0x0D then [ord CHR 0x5C, ord CHR ''r'']
      else if c = 0x09 then [ord CHR 0x5C, ord CHR ''t'']
      else if 0x20 \<le> c \<and> c \<le> 0x7E then [c]
      else if c < 0x10000 then [ord CHR 0x5C, ord CHR ''u''] @ hex4 c
      else [ord CHR 0x5C, ord CHR ''u''] @ hex4 (0xD800 + (c - 0x10000) div 1024 mod 1024) @
           [ord CHR 0x5C, ord CHR ''u''] @ hex4 (0xDC00 + (c - 0x10000) mod 1024))"

definition encode_basestring_ascii :: "pystr \<Rightarrow> pystr" where
  "encode_basestring_ascii s = [ord CHR 0x22] @ concat (map escape_char s) @ [ord CHR 0x22]"

definition newline_indent :: "nat \<Rightarrow> nat \<Rightarrow> pystr" where
  "newline_indent indent level = ord CHR 0x0A # replicate (indent * level) (ord CHR '' '')"

fun iterencode :: "nat \<Rightarrow> nat \<Rightarrow> json \<Rightarrow> pystr" where
  "iterencode indent level (JStr s) = encode_basestring_ascii s"
| "iterencode indent level (JInt i) = str_int i"
| "iterencode indent level (JObj dct) =
     (if dct = [] then py ''{}''
      else py ''{'' @ newline_indent indent (Suc level) @
           join (py '','' @ newline_indent indent (Suc level))
             (map (\<lambda>(key, v). encode_basestring_ascii key @ py '': '' @
                                 iterencode indent (Suc level) v) dct) @
           newline_indent indent level @ py ''}'')"

definition dump :: "json \<Rightarrow> pystr" where
  "dump obj = iterencode 2 0 obj"

text \<open>
  The folder name the loops read the subject from:
  \<^verbatim>\<open>pname = str(fpath.parent).split(splitter)[-1]\<close>.
\<close>

definition pname :: "path \<Rightarrow> pystr" where
  "pname fpath = last (split_sep (str_path (parent fpath)) (ord CHR ''/''))"

text \<open>
  One pass of the JSON loop for the source file \<open>fpath\<close>: the file it opens for writing and
  the text it writes there.
\<close>

definition eeg_json :: "path \<Rightarrow> pystr \<Rightarrow> path \<Rightarrow> error + path \<times> pystr" where
  "eeg_json ROOTPATH taskname fpath =
     (case subID (pname fpath) of
        Inl e \<Rightarrow> Inl e
      | Inr sid \<Rightarrow> Inr (metadatafile_json ROOTPATH taskname sid, dump (metadata taskname)))"

section \<open>Copying the recordings\<close>

text \<open>
  The file system the loops act on: a path names a regular file with its bytes, a
  directory, or nothing. A path without components (the root, or the working directory)
  is a directory. There are no links and no \<^verbatim>\<open>..\<close> components: two different paths are two
  different files.
\<close>

datatype node = File string | Dir

type_synonym filesystem = "path \<Rightarrow> node option"

definition lookup :: "filesystem \<Rightarrow> path \<Rightarrow> node option" where
  "lookup fs p = (if parts p = [] then Some Dir else fs p)"

text \<open>
  \<^verbatim>\<open>os.mkdir(p)\<close>: the parent must exist and be a directory, and \<^verbatim>\<open>p\<close> must not exist.
\<close>

definition os_mkdir :: "filesystem \<Rightarrow> path \<Rightarrow> error + filesystem" where
  "os_mkdir fs p =
     (if lookup fs (parent p) = None then Inl FileNotFoundError
      else if lookup fs (parent p) \<noteq> Some Dir then Inl NotADirectoryError
      else if lookup fs p \<noteq> None then Inl FileExistsError
      else Inr (fs(p \<mapsto> Dir)))"

text \<open>
  \<^verbatim>\<open>p.mkdir(exist_ok=True, parents=True)\<close>, as \<^verbatim>\<open>pathlib\<close> writes it: try \<^verbatim>\<open>os.mkdir\<close>; on
  \<^verbatim>\<open>FileNotFoundError\<close> make the parent first and try once more; any other error is
  ignored when \<^verbatim>\<open>p\<close> is a directory.
\<close>

function mkdir :: "filesystem \<Rightarrow> path \<Rightarrow> error + filesystem" where
  "mkdir fs p =
     (case os_mkdir fs p of
        Inr fs' \<Rightarrow> Inr fs'
      | Inl e \<Rightarrow>
          if e = FileNotFoundError then
            (if parent p = p then Inl e
             else (case mkdir fs (parent p) of
                     Inl e' \<Rightarrow> Inl e'
                   | Inr fs' \<Rightarrow>
                       (case os_mkdir fs' p of
                          Inr fs'' \<Rightarrow> Inr fs''
                        | Inl e' \<Rightarrow>
                            if e' \<noteq> FileNotFoundError \<and> lookup fs' p = Some Dir then Inr fs'
                            else Inl e')))
          else if lookup fs p = Some Dir then Inr fs
          else Inl e)"
  by pat_completeness auto
termination
proof (relation "measure (\<lambda>(fs, p). length (parts p))")
  show "wf (measure (\<lambda>(fs, p). length (parts p)))"
    by simp
next
  fix fs :: filesystem and p e
  assume "parent p \<noteq> p"
  then have "parts p \<noteq> []"
    by (cases p) (auto simp: parent_def)
  then show "((fs, parent p), (fs, p)) \<in> measure (\<lambda>(fs, p). length (parts p))"
    by (simp add: parent_def)
qed

declare mkdir.simps [simp del]

text \<open>
  \<^verbatim>\<open>shutil.copyfile(src, dst)\<close>: refuses to copy a file onto itself, opens \<^verbatim>\<open>src\<close> for
  reading and \<^verbatim>\<open>dst\<close> for writing (creating or truncating it), and writes the bytes read.
\<close>

definition copyfile :: "filesystem \<Rightarrow> path \<Rightarrow> path \<Rightarrow> error + filesystem" where
  "copyfile fs src dst =
     (if src = dst \<and> lookup fs src \<noteq> None then Inl SameFileError
      else (case lookup fs src of
              None \<Rightarrow> Inl FileNotFoundError
            | Some Dir \<Rightarrow> Inl IsADirectoryError
            | Some (File content) \<Rightarrow>
                if lookup fs (parent dst) = None then Inl FileNotFoundError
                else if lookup fs (parent dst) \<noteq> Some Dir then Inl NotADirectoryError
                else if lookup fs dst = Some Dir then Inl IsADirectoryError
                else Inr (fs(dst \<mapsto> File content))))"

text \<open>
  One pass of the behavioural loop and of the EEG loop for the source file \<open>fpath\<close>: subject
  ID, \<^verbatim>\<open>mkdir\<close> of the destination directory, \<^verbatim>\<open>copyfile\<close> to \<^verbatim>\<open>rawfile\<close>.
\<close>

definition transfer_beh :: "path \<Rightarrow> pystr \<Rightarrow> filesystem \<Rightarrow> path \<Rightarrow> error + filesystem" where
  "transfer_beh ROOTPATH taskname fs fpath =
     (case subID (pname fpath) of
        Inl e \<Rightarrow> Inl e
      | Inr sid \<Rightarrow>
          (case mkdir fs (foldl truediv ROOTPATH [py ''02_Rawdata'', py ''sub-'' @ sid, py ''beh'']) of
             Inl e \<Rightarrow> Inl e
           | Inr fs' \<Rightarrow> copyfile fs' fpath (rawfile_beh ROOTPATH taskname sid)))"

definition transfer_eeg :: "path \<Rightarrow> pystr \<Rightarrow> filesystem \<Rightarrow> path \<Rightarrow> error + filesystem" where
  "transfer_eeg ROOTPATH taskname fs fpath =
     (case subID (pname fpath) of
        Inl e \<Rightarrow> Inl e
      | Inr sid \<Rightarrow>
          (case mkdir fs (foldl truediv ROOTPATH [py ''02_Rawdata'', py ''sub-'' @ sid, py ''eeg'']) of
             Inl e \<Rightarrow> Inl e
           | Inr fs' \<Rightarrow> copyfile fs' fpath (rawfile_eeg ROOTPATH taskname sid)))"

text \<open>
  A sample for the examples: \<^verbatim>\<open>ROOTPATH\<close> is \<^verbatim>\<open>/data\<close>, and the source tree holds an EEG
  recording and a behavioural recording of three bytes each under
  \<^verbatim>\<open>/data/01_Sourcedata/S1_x\<close>; \<open>sample_after\<close> is the tree after one recording was copied.
\<close>

definition sample_root :: path where
  "sample_root = Path (py ''/'') [py ''data'']"

definition sample_src :: "string \<Rightarrow> path" where
  "sample_src name = Path (py ''/'') [py ''data'', py ''01_Sourcedata'', py ''S1_x'', py name]"

definition sample_dst :: "string \<Rightarrow> string \<Rightarrow> path" where
  "sample_dst dir name =
     Path (py ''/'') [py ''data'', py ''02_Rawdata'', py ''sub-01'', py dir, py name]"

definition sample_fs :: filesystem where
  "sample_fs =
     [Path (py ''/'') [py ''data''] \<mapsto> Dir,
      Path (py ''/'') [py ''data'', py ''01_Sourcedata''] \<mapsto> Dir,
      Path (py ''/'') [py ''data'', py ''01_Sourcedata'', py ''S1_x''] \<mapsto> Dir,
      sample_src ''eeg001.mat'' \<mapsto> File ''abc'',
      sample_src ''bhv001.mat'' \<mapsto> File ''xyz'']"

definition sample_after :: "string \<Rightarrow> string \<Rightarrow> string \<Rightarrow> filesystem" where
  "sample_after dir name content =
     sample_fs
      (Path (py ''/'') [py ''data'', py ''02_Rawdata''] \<mapsto> Dir,
       Path (py ''/'') [py ''data'', py ''02_Rawdata'', py ''sub-01''] \<mapsto> Dir,
       Path (py ''/'') [py ''data'', py ''02_Rawdata'', py ''sub-01'', py dir] \<mapsto> Dir,
       sample_dst dir name \<mapsto> File content)"

section \<open>Properties of the subject ID\<close>

lemma replace_replace:
  "replace (replace s (ord CHR ''_'') (ord CHR 0x09)) (ord CHR ''-'') (ord CHR 0x09) =
     map (\<lambda>c. if is_delim c \<and> \<not> isspace c then ord CHR 0x09 else c) s"
  by (induction s) (auto simp: replace_def is_delim_def isspace_def)

lemma isspace_retab:
  "isspace (if is_delim c \<and> \<not> isspace c then ord CHR 0x09 else c) = is_delim c"
  by (auto simp: is_delim_def isspace_def)

lemma tokens_map:
  "tokens folder = split (map (\<lambda>c. if is_delim c \<and> \<not> isspace c then ord CHR 0x09 else c) folder)"
  by (simp only: tokens_def replace_replace)

lemma split_skip: "list_all isspace pre \<Longrightarrow> split (pre @ s) = split s"
  by (induction pre) simp_all

lemma split_token:
  assumes "\<not> isspace p" and "list_all (\<lambda>c. \<not> isspace c) tok"
    and "rest = [] \<or> isspace (hd rest)"
  shows "split (p # tok @ rest) = (p # tok) # split rest"
proof -
  have all: "\<forall>x\<in>set tok. \<not> isspace x"
    using assms(2) by (simp add: list_all_iff)
  have tw: "takeWhile (\<lambda>x. \<not> isspace x) rest = []"
    using assms(3) by (cases rest) auto
  have dw: "dropWhile (\<lambda>x. \<not> isspace x) rest = rest"
    using assms(3) by (cases rest) auto
  have "takeWhile (\<lambda>x. \<not> isspace x) (tok @ rest) = tok"
    using all tw by (simp add: takeWhile_append2)
  moreover have "dropWhile (\<lambda>x. \<not> isspace x) (tok @ rest) = rest"
    using all dw by (simp add: dropWhile_append2)
  ultimately show ?thesis
    using assms(1) by simp
qed

lemma split_Nil_iff: "split s = [] \<longleftrightarrow> list_all isspace s"
  by (induction s) simp_all

lemma tokens_Nil_iff: "tokens folder = [] \<longleftrightarrow> list_all is_delim folder"
  unfolding tokens_map split_Nil_iff list_all_iff
  by (simp only: set_map ball_simps isspace_retab)

lemma tokens_first:
  assumes "list_all is_delim pre" and "\<not> is_delim p"
    and "list_all (\<lambda>c. \<not> is_delim c) tok" and "rest = [] \<or> is_delim (hd rest)"
  shows "tokens (pre @ p # tok @ rest) = (p # tok) # tokens rest"
proof -
  define r where "r = (\<lambda>c. if is_delim c \<and> \<not> isspace c then ord CHR 0x09 else c)"
  have sp: "isspace (r c) = is_delim c" for c
    unfolding r_def by (rule isspace_retab)
  have keep: "\<not> is_delim c \<Longrightarrow> r c = c" for c
    by (simp add: r_def)
  have tk: "tokens s = split (map r s)" for s
    unfolding r_def by (rule tokens_map)
  have 1: "list_all isspace (map r pre)"
    using assms(1) by (simp add: list_all_iff sp)
  have 2: "map r tok = tok"
    using assms(3) keep by (simp add: list_all_iff map_idI)
  have 3: "map r rest = [] \<or> isspace (hd (map r rest))"
    using assms(4) by (cases rest) (simp_all add: sp)
  have 4: "\<not> isspace p" "list_all (\<lambda>c. \<not> isspace c) tok"
    using assms(2,3) by (auto simp: is_delim_def list_all_iff)
  have "tokens (pre @ p # tok @ rest) = split (map r pre @ p # tok @ map r rest)"
    using 2 keep [OF assms(2)] by (simp add: tk)
  also have "\<dots> = split (p # tok @ map r rest)"
    using 1 by (rule split_skip)
  also have "\<dots> = (p # tok) # split (map r rest)"
    using 4 3 by (rule split_token)
  finally show ?thesis
    by (simp add: tk)
qed

lemma digit_not_delim: "is_digit c \<Longrightarrow> \<not> is_delim c"
  by (auto simp: is_digit_def is_delim_def isspace_def)

lemma subID_first_token:
  assumes "list_all is_delim pre" and "\<not> is_delim p"
    and "list_all (\<lambda>c. \<not> is_delim c) tok" and "rest = [] \<or> is_delim (hd rest)"
  shows "subID (pre @ p # tok @ rest) = Inr (rjust tok 2 (ord CHR ''0''))"
  using tokens_first [OF assms] by (simp add: subID_def del: of_char_Char)

lemma retab_separator:
  assumes "x \<in> {ord CHR ''_'', ord CHR ''-''}"
  shows "(if is_delim x \<and> \<not> isspace x then ord CHR 0x09 else x) = ord CHR 0x09"
proof -
  from assms have "x = ord CHR ''_'' \<or> x = ord CHR ''-''" by simp
  then have "is_delim x" and "\<not> isspace x"
    by (auto simp: is_delim_def isspace_def)
  then show ?thesis by simp
qed

lemma same_retab:
  assumes "x = y \<or> (x \<in> {ord CHR ''_'', ord CHR ''-''} \<and> y \<in> {ord CHR ''_'', ord CHR ''-''})"
  shows "(if is_delim x \<and> \<not> isspace x then ord CHR 0x09 else x) =
         (if is_delim y \<and> \<not> isspace y then ord CHR 0x09 else y)"
  using assms
proof
  assume "x = y"
  then show ?thesis by simp
next
  assume "x \<in> {ord CHR ''_'', ord CHR ''-''} \<and> y \<in> {ord CHR ''_'', ord CHR ''-''}"
  then show ?thesis
    by (simp only: retab_separator)
qed

lemma tokens_separator_variant:
  assumes "separator_variant a b"
  shows "tokens a = tokens b"
proof -
  have "map (\<lambda>c. if is_delim c \<and> \<not> isspace c then ord CHR 0x09 else c) a =
        map (\<lambda>c. if is_delim c \<and> \<not> isspace c then ord CHR 0x09 else c) b"
    using assms unfolding separator_variant_def
  proof (induction a b rule: list_all2_induct)
    case Nil
    then show ?case by simp
  next
    case (Cons x xs y ys)
    from same_retab [OF Cons(1)] Cons(3) show ?case by simp
  qed
  then show ?thesis
    by (simp only: tokens_map)
qed

text \<open>Unfolding these evaluates the extraction on a literal folder name.\<close>

lemmas subID_eval = subID_def tokens_def replace_def py_def isspace_def rjust_def numeral_2_eq_2

text \<open>
  Claim C1 (amended). For every raw folder name whose first token is one marker character
  followed by decimal digits, optionally followed by further \<^verbatim>\<open>_\<close>/\<^verbatim>\<open>-\<close>-separated tokens, the
  extraction returns exactly those digits left-padded with \<^verbatim>\<open>'0'\<close> to width 2, whatever the
  trailing tokens are; in particular \<^verbatim>\<open>S1_JohnDoe\<close> yields \<^verbatim>\<open>01\<close>, \<^verbatim>\<open>S12\<close> yields \<^verbatim>\<open>12\<close> and
  \<^verbatim>\<open>P7_retest\<close> yields \<^verbatim>\<open>07\<close>.
\<close>

theorem subID_marker_digits:
  assumes "list_all is_delim pre" and "\<not> is_delim p"
    and "list_all is_digit ds" and "rest = [] \<or> is_delim (hd rest)"
  shows "subID (pre @ p # ds @ rest) = Inr (rjust ds 2 (ord CHR ''0'')) \<and>
         subID (py ''S1_JohnDoe'') = Inr (py ''01'') \<and>
         subID (py ''S12'') = Inr (py ''12'') \<and>
         subID (py ''P7_retest'') = Inr (py ''07'')"
proof -
  have "list_all (\<lambda>c. \<not> is_delim c) ds"
    using assms(3) by (simp add: list_all_iff digit_not_delim)
  then have "subID (pre @ p # ds @ rest) = Inr (rjust ds 2 (ord CHR ''0''))"
    using assms(1,2,4) by (intro subID_first_token)
  moreover have "subID (py ''S1_JohnDoe'') = Inr (py ''01'')"
    by (simp add: subID_eval)
  moreover have "subID (py ''S12'') = Inr (py ''12'')"
    by (simp add: subID_eval)
  moreover have "subID (py ''P7_retest'') = Inr (py ''07'')"
    by (simp add: subID_eval)
  ultimately show ?thesis by blast
qed

text \<open>The theorem at the folder name \<^verbatim>\<open>_S9_a_b\<close>.\<close>

theorem subID_marker_digits_witness:
  "list_all is_delim (py ''_'') \<and> \<not> is_delim (ord CHR ''S'') \<and> list_all is_digit (py ''9'') \<and>
   is_delim (hd (py ''_a_b'')) \<and>
   subID (py ''_'' @ ord CHR ''S'' # py ''9'' @ py ''_a_b'') = Inr (py ''09'') \<and>
   subID (py ''_S9_a_b'') = Inr (py ''09'')"
proof -
  have h1: "list_all is_delim (py ''_'')" by (simp add: py_def is_delim_def)
  have h2: "\<not> is_delim (ord CHR ''S'')" by (simp add: is_delim_def isspace_def)
  have h3: "list_all is_digit (py ''9'')" by (simp add: py_def is_digit_def)
  have h4: "is_delim (hd (py ''_a_b''))" by (simp add: py_def is_delim_def)
  from h4 have h4': "py ''_a_b'' = [] \<or> is_delim (hd (py ''_a_b''))" by simp
  show ?thesis
    using subID_marker_digits [OF h1 h2 h3 h4'] h1 h2 h3 h4
    by (simp add: py_def rjust_def numeral_2_eq_2)
qed

text \<open>
  C1 as stated fails on its own examples: the first token of \<^verbatim>\<open>sub-12\<close> is \<^verbatim>\<open>sub\<close>, that of
  \<^verbatim>\<open>P-7_retest\<close> is \<^verbatim>\<open>P\<close>, and only one character is dropped.
\<close>

theorem subID_sub12_counterexample:
  "subID (py ''sub-12'') = Inr (py ''ub'') \<and> subID (py ''sub-12'') \<noteq> Inr (py ''12'') \<and>
   subID (py ''P-7_retest'') = Inr (py ''00'') \<and> subID (py ''P-7_retest'') \<noteq> Inr (py ''07'')"
  by (simp add: subID_eval)

text \<open>
  Claim C2 (amended). For every raw folder name whose first token is one marker character
  followed by one or two decimal digits, the returned SubjectID is a two-character,
  zero-padded decimal string, and two such folder names with the same digits yield the same
  SubjectID whatever their marker characters and whatever follows the first token
  (underscores or hyphens, extra trailing initials). Writing \<^verbatim>\<open>_\<close> for \<^verbatim>\<open>-\<close> or \<^verbatim>\<open>-\<close> for \<^verbatim>\<open>_\<close>
  anywhere in a folder name never changes what the extraction returns.
\<close>

theorem subID_two_digits:
  assumes "\<not> is_delim p" and "\<not> is_delim q"
    and "list_all is_digit ds" and "ds \<noteq> []" and "length ds \<le> 2"
    and "r = [] \<or> is_delim (hd r)" and "r' = [] \<or> is_delim (hd r')"
  shows "(\<exists>sid. subID (p # ds @ r) = Inr sid \<and> subID (q # ds @ r') = Inr sid \<and>
            is_SubjectID sid) \<and>
         (\<forall>a b. separator_variant a b \<longrightarrow> subID a = subID b)"
proof -
  have nd: "list_all (\<lambda>c. \<not> is_delim c) ds"
    using assms(3) by (simp add: list_all_iff digit_not_delim)
  have a: "subID (p # ds @ r) = Inr (rjust ds 2 (ord CHR ''0''))"
    using subID_first_token [of "[]" p ds r] nd assms(1,6) by simp
  have b: "subID (q # ds @ r') = Inr (rjust ds 2 (ord CHR ''0''))"
    using subID_first_token [of "[]" q ds r'] nd assms(2,7) by simp
  have "length (rjust ds 2 (ord CHR ''0'')) = 2"
    using assms(4,5) by (cases ds) (auto simp: rjust_def)
  moreover have "list_all is_digit (rjust ds 2 (ord CHR ''0''))"
    using assms(3) by (auto simp: rjust_def list_all_iff is_digit_def)
  ultimately have "is_SubjectID (rjust ds 2 (ord CHR ''0''))"
    by (simp add: is_SubjectID_def)
  moreover have "subID a = subID b" if "separator_variant a b" for a b
    using tokens_separator_variant [OF that] by (simp add: subID_def)
  ultimately show ?thesis
    using a b by blast
qed

text \<open>
  The theorem at the folder names \<^verbatim>\<open>S1_JD\<close> and \<^verbatim>\<open>p1-xy-retest\<close>, and at \<^verbatim>\<open>S1_JD-x\<close> and
  \<^verbatim>\<open>S1-JD_x\<close>.
\<close>

theorem subID_two_digits_witness:
  "\<not> is_delim (ord CHR ''S'') \<and> \<not> is_delim (ord CHR ''p'') \<and> list_all is_digit (py ''1'') \<and>
   py ''1'' \<noteq> [] \<and> length (py ''1'') \<le> 2 \<and> is_delim (hd (py ''_JD'')) \<and> is_delim (hd (py ''-xy-retest'')) \<and>
   subID (py ''S1_JD'') = Inr (py ''01'') \<and> subID (py ''p1-xy-retest'') = Inr (py ''01'') \<and>
   is_SubjectID (py ''01'') \<and>
   separator_variant (py ''S1_JD-x'') (py ''S1-JD_x'') \<and>
   subID (py ''S1_JD-x'') = subID (py ''S1-JD_x'')"
proof -
  have v: "separator_variant (py ''S1_JD-x'') (py ''S1-JD_x'')"
    by (simp add: separator_variant_def py_def)
  have h1: "\<not> is_delim (ord CHR ''S'')" by (simp add: is_delim_def isspace_def)
  have h2: "\<not> is_delim (ord CHR ''p'')" by (simp add: is_delim_def isspace_def)
  have h3: "list_all is_digit (py ''1'')" by (simp add: py_def is_digit_def)
  have h4: "py ''1'' \<noteq> []" by (simp add: py_def)
  have h5: "length (py ''1'') \<le> 2" by (simp add: py_def)
  have h6: "is_delim (hd (py ''_JD''))" by (simp add: py_def is_delim_def)
  have h7: "is_delim (hd (py ''-xy-retest''))" by (simp add: py_def is_delim_def)
  from h6 have h6': "py ''_JD'' = [] \<or> is_delim (hd (py ''_JD''))" by simp
  from h7 have h7': "py ''-xy-retest'' = [] \<or> is_delim (hd (py ''-xy-retest''))" by simp
  have e1: "subID (py ''S1_JD'') = Inr (py ''01'')" by (simp add: subID_eval)
  have e2: "subID (py ''p1-xy-retest'') = Inr (py ''01'')" by (simp add: subID_eval)
  have e3: "is_SubjectID (py ''01'')" by (simp add: is_SubjectID_def py_def is_digit_def)
  show ?thesis
    using subID_two_digits [OF h1 h2 h3 h4 h5 h6' h7'] h1 h2 h3 h4 h5 h6 h7 e1 e2 e3 v
    by blast
qed

text \<open>
  C2 as stated fails: the extraction accepts \<^verbatim>\<open>S123\<close> and \<^verbatim>\<open>Sab\<close>, and returns three
  characters for the first and no digits for the second.
\<close>

theorem subID_S123_counterexample:
  "subID (py ''S123'') = Inr (py ''123'') \<and> \<not> is_SubjectID (py ''123'') \<and>
   subID (py ''Sab'') = Inr (py ''ab'') \<and> \<not> is_SubjectID (py ''ab'')"
  by (simp add: subID_eval is_SubjectID_def is_digit_def)

text \<open>
  Claim C3 (amended). The subject-ID extraction fails, with Python's \<^verbatim>\<open>IndexError\<close>, exactly
  for the raw folder names that have no token at all (empty, or made of \<^verbatim>\<open>_\<close>, \<^verbatim>\<open>-\<close> and
  whitespace only); a first token of a single character is accepted and yields \<^verbatim>\<open>00\<close>.
\<close>

theorem subID_IndexError_iff:
  "(subID folder = Inl IndexError \<longleftrightarrow> list_all is_delim folder) \<and>
   (\<forall>p rest. \<not> is_delim p \<and> (rest = [] \<or> is_delim (hd rest)) \<longrightarrow>
      subID (p # rest) = Inr (py ''00''))"
proof -
  have "subID folder = Inl IndexError \<longleftrightarrow> tokens folder = []"
    by (simp add: subID_def split: list.splits)
  then have 1: "subID folder = Inl IndexError \<longleftrightarrow> list_all is_delim folder"
    by (simp only: tokens_Nil_iff)
  have 2: "subID (p # rest) = Inr (py ''00'')"
    if "\<not> is_delim p" and "rest = [] \<or> is_delim (hd rest)" for p rest
    using subID_first_token [of "[]" p "[]" rest] that by (simp add: rjust_def py_def numeral_2_eq_2)
  from 1 2 show ?thesis by blast
qed

text \<open>The theorem at the folder names \<^verbatim>\<open>_-_\<close> and \<^verbatim>\<open>7_JD\<close>.\<close>

theorem subID_IndexError_iff_witness:
  "list_all is_delim (py ''_-_'') \<and> subID (py ''_-_'') = Inl IndexError \<and>
   \<not> is_delim (ord CHR ''7'') \<and> is_delim (hd (py ''_JD'')) \<and>
   subID (ord CHR ''7'' # py ''_JD'') = Inr (py ''00'')"
proof -
  have h1: "list_all is_delim (py ''_-_'')" by (simp add: py_def is_delim_def)
  have h2: "\<not> is_delim (ord CHR ''7'')" by (simp add: is_delim_def isspace_def)
  have h3: "is_delim (hd (py ''_JD''))" by (simp add: py_def is_delim_def)
  show ?thesis
    using subID_IndexError_iff [of "py ''_-_''"] h1 h2 h3 by blast
qed

text \<open>
  C3 as stated fails: a single-character first token raises nothing.
\<close>

theorem subID_single_char_counterexample:
  "tokens (py ''7'') = [py ''7''] \<and> subID (py ''7'') = Inr (py ''00'') \<and>
   tokens (py ''1_JD'') = [py ''1'', py ''JD''] \<and> subID (py ''1_JD'') = Inr (py ''00'')"
  by (simp add: subID_eval)

text \<open>
  Claim C10. The extraction drops the first character of the first token without looking
  at it: two raw folder names whose first \<^verbatim>\<open>_\<close>/\<^verbatim>\<open>-\<close>/whitespace-delimited tokens are equal
  after removing their first character get the same SubjectID, the common tail left-padded
  with \<^verbatim>\<open>'0'\<close> to width 2, whatever the two first characters are (letters or digits), whatever
  delimiters precede the first token and whatever follows it; \<^verbatim>\<open>S1\<close>, \<^verbatim>\<open>P1\<close> and \<^verbatim>\<open>11\<close> all
  yield \<^verbatim>\<open>01\<close>.
\<close>

theorem subID_drops_first_char:
  assumes "list_all is_delim pre" and "list_all is_delim pre'"
    and "\<not> is_delim p" and "\<not> is_delim q"
    and "list_all (\<lambda>c. \<not> is_delim c) tail"
    and "r = [] \<or> is_delim (hd r)" and "r' = [] \<or> is_delim (hd r')"
  shows "subID (pre @ p # tail @ r) = subID (pre' @ q # tail @ r') \<and>
         subID (pre @ p # tail @ r) = Inr (rjust tail 2 (ord CHR ''0'')) \<and>
         subID (py ''S1'') = Inr (py ''01'') \<and> subID (py ''P1'') = Inr (py ''01'') \<and>
         subID (py ''11'') = Inr (py ''01'')"
proof -
  have a: "subID (pre @ p # tail @ r) = Inr (rjust tail 2 (ord CHR ''0''))"
    using assms(1,3,5,6) by (rule subID_first_token)
  have b: "subID (pre' @ q # tail @ r') = Inr (rjust tail 2 (ord CHR ''0''))"
    using assms(2,4,5,7) by (rule subID_first_token)
  have "subID (py ''S1'') = Inr (py ''01'')" "subID (py ''P1'') = Inr (py ''01'')"
    "subID (py ''11'') = Inr (py ''01'')"
    by (simp_all add: subID_eval)
  with a b show ?thesis by simp
qed

text \<open>The theorem at the folder names \<^verbatim>\<open>_S1_a\<close> and \<^verbatim>\<open>11-b c\<close>.\<close>

theorem subID_drops_first_char_witness:
  "list_all is_delim (py ''_'') \<and> list_all is_delim [] \<and>
   \<not> is_delim (ord CHR ''S'') \<and> \<not> is_delim (ord CHR ''1'') \<and>
   list_all (\<lambda>c. \<not> is_delim c) (py ''1'') \<and>
   is_delim (hd (py ''_a'')) \<and> is_delim (hd (py ''-b c'')) \<and>
   subID (py ''_'' @ ord CHR ''S'' # py ''1'' @ py ''_a'') =
     subID ([] @ ord CHR ''1'' # py ''1'' @ py ''-b c'') \<and>
   subID (py ''_S1_a'') = Inr (py ''01'') \<and> subID (py ''11-b c'') = Inr (py ''01'')"
proof -
  have h1: "list_all is_delim (py ''_'')" by (simp add: py_def is_delim_def)
  have h2: "list_all is_delim []" by simp
  have h3: "\<not> is_delim (ord CHR ''S'')" by (simp add: is_delim_def isspace_def)
  have h4: "\<not> is_delim (ord CHR ''1'')" by (simp add: is_delim_def isspace_def)
  have h5: "list_all (\<lambda>c. \<not> is_delim c) (py ''1'')" by (simp add: py_def is_delim_def isspace_def)
  have h6: "is_delim (hd (py ''_a''))" by (simp add: py_def is_delim_def)
  have h7: "is_delim (hd (py ''-b c''))" by (simp add: py_def is_delim_def)
  from h6 have h6': "py ''_a'' = [] \<or> is_delim (hd (py ''_a''))" by simp
  from h7 have h7': "py ''-b c'' = [] \<or> is_delim (hd (py ''-b c''))" by simp
  have e1: "subID (py ''_S1_a'') = Inr (py ''01'')" by (simp add: subID_eval)
  have e2: "subID (py ''11-b c'') = Inr (py ''01'')" by (simp add: subID_eval)
  from subID_drops_first_char [OF h1 h2 h3 h4 h5 h6' h7']
  have "subID (py ''_'' @ ord CHR ''S'' # py ''1'' @ py ''_a'') =
     subID ([] @ ord CHR ''1'' # py ''1'' @ py ''-b c'')"
    by (rule conjunct1)
  with h1 h2 h3 h4 h5 h6 h7 e1 e2 show ?thesis
    by (intro conjI)
qed

section \<open>Properties of the destination paths\<close>

lemma split_sep_nonempty: "split_sep s sep \<noteq> []"
  by (induction s) (simp_all split: list.splits)

lemma split_sep_append:
  "split_sep (a @ sep # b) sep = split_sep a sep @ split_sep b sep"
  using split_sep_nonempty by (induction a) (auto split: list.splits)

lemma split_sep_single: "sep \<notin> set s \<Longrightarrow> split_sep s sep = [s]"
  by (induction s) simp_all

lemma parse_rel_append:
  "parse_rel (a @ ord CHR ''/'' # b) = parse_rel a @ parse_rel b"
  by (simp only: parse_rel_def split_sep_append filter_append)

lemma parse_rel_single:
  "ord CHR ''/'' \<notin> set s \<Longrightarrow> s \<noteq> [] \<Longrightarrow> s \<noteq> py ''.'' \<Longrightarrow> parse_rel s = [s]"
  by (simp add: parse_rel_def split_sep_single del: of_char_Char)

lemma truediv_relative:
  "key = [] \<or> hd key \<noteq> ord CHR ''/'' \<Longrightarrow> truediv p key = Path (root p) (parts p @ parse_rel key)"
  by (auto simp: truediv_def splitroot_def)

lemma join_append:
  "xs \<noteq> [] \<Longrightarrow> ys \<noteq> [] \<Longrightarrow> join sep (xs @ ys) = join sep xs @ sep @ join sep ys"
  by (induction sep xs rule: join.induct) (auto simp: neq_Nil_conv)


lemma truediv3:
  assumes "relative_key a" and "relative_key b" and "relative_key c"
  shows "foldl truediv p [r, a, b, c] =
         truediv (truediv p r) (a @ ord CHR ''/'' # b @ ord CHR ''/'' # c)"
proof -
  have "relative_key (a @ ord CHR ''/'' # b @ ord CHR ''/'' # c)"
    using assms(1) by (cases a) (simp_all add: relative_key_def)
  then show ?thesis
    using assms by (simp add: relative_key_def truediv_relative parse_rel_append del: of_char_Char)
qed

lemma relative_sub: "relative_key (py ''sub-'' @ s)"
  by (simp add: relative_key_def py_def)

lemma planned_rel:
  assumes "relative_key d"
  shows "foldl truediv R [py ''02_Rawdata'', py ''sub-'' @ sid, d,
            (py ''sub-'' @ sid @ py ''_task-'') @ T @ py ''_'' @ sfx] =
         truediv (truediv R (py ''02_Rawdata'')) (CanonicalRel sid d T sfx)"
proof -
  have "CanonicalRel sid d T sfx =
        (py ''sub-'' @ sid) @ ord CHR ''/'' # d @ ord CHR ''/'' #
          ((py ''sub-'' @ sid @ py ''_task-'') @ T @ py ''_'' @ sfx)"
    by (simp add: CanonicalRel_def py_def)
  moreover have "relative_key ((py ''sub-'' @ sid @ py ''_task-'') @ T @ py ''_'' @ sfx)"
    using relative_sub [of "sid @ py ''_task-'' @ T @ py ''_'' @ sfx"] by simp
  ultimately show ?thesis
    using truediv3 [OF relative_sub assms] by simp
qed

lemma str_path_planned:
  assumes "ord CHR ''/'' \<notin> set sid" and "ord CHR ''/'' \<notin> set T"
    and "ord CHR ''/'' \<notin> set d" and "ord CHR ''/'' \<notin> set sfx" and "relative_key d" and "d \<noteq> py ''.''"
  shows "str_path (truediv (truediv R (py ''02_Rawdata'')) (CanonicalRel sid d T sfx)) =
         CanonicalPath (str_path (truediv R (py ''02_Rawdata''))) sid d T sfx"
proof -
  let ?a = "py ''sub-'' @ sid"
  let ?c = "(py ''sub-'' @ sid @ py ''_task-'') @ T @ py ''_'' @ sfx"
  have rel: "CanonicalRel sid d T sfx = ?a @ ord CHR ''/'' # d @ ord CHR ''/'' # ?c"
    by (simp add: CanonicalRel_def py_def)
  have pa: "parse_rel ?a = [?a]"
    using assms(1) by (intro parse_rel_single) (auto simp: py_def)
  have pd: "parse_rel d = [d]"
    using assms(3,5,6) by (intro parse_rel_single) (auto simp: relative_key_def)
  have pc: "parse_rel ?c = [?c]"
    using assms(1,2,4) by (intro parse_rel_single) (auto simp: py_def)
  have pr: "parse_rel (py ''02_Rawdata'') = [py ''02_Rawdata'']"
    by (intro parse_rel_single) (auto simp: py_def)
  have root: "truediv R (py ''02_Rawdata'') = Path (root R) (parts R @ [py ''02_Rawdata''])"
  proof -
    have "py ''02_Rawdata'' = [] \<or> hd (py ''02_Rawdata'') \<noteq> ord CHR ''/''"
      by (simp add: py_def)
    from truediv_relative [OF this] show ?thesis
      by (simp only: pr)
  qed
  have pk: "parse_rel (?a @ ord CHR ''/'' # d @ ord CHR ''/'' # ?c) = [?a, d, ?c]"
    by (simp only: parse_rel_append pa pd pc append.simps)
  have "relative_key (CanonicalRel sid d T sfx)"
    unfolding rel using relative_sub [of sid] by (simp add: relative_key_def py_def)
  then have "CanonicalRel sid d T sfx = [] \<or> hd (CanonicalRel sid d T sfx) \<noteq> ord CHR ''/''"
    by (simp add: relative_key_def)
  from truediv_relative [OF this]
  have full: "truediv (truediv R (py ''02_Rawdata'')) (CanonicalRel sid d T sfx) =
        Path (root R) ((parts R @ [py ''02_Rawdata'']) @ [?a, d, ?c])"
    unfolding root unfolding rel pk by simp
  have j: "join (py ''/'') ((parts R @ [py ''02_Rawdata'']) @ [?a, d, ?c]) =
           join (py ''/'') (parts R @ [py ''02_Rawdata'']) @ py ''/'' @ join (py ''/'') [?a, d, ?c]"
    by (rule join_append) simp_all
  have "str_path (Path (root R) ((parts R @ [py ''02_Rawdata'']) @ [?a, d, ?c])) =
        str_path (Path (root R) (parts R @ [py ''02_Rawdata''])) @ py ''/'' @ join (py ''/'') [?a, d, ?c]"
    unfolding str_path_def path.sel j by simp
  also have "py ''/'' @ join (py ''/'') [?a, d, ?c] = py ''/'' @ CanonicalRel sid d T sfx"
    unfolding rel by (simp add: py_def)
  finally show ?thesis
    unfolding CanonicalPath_def full unfolding root .
qed


lemma relative_dirs: "relative_key (py ''beh'')" "relative_key (py ''eeg'')"
  by (simp_all add: relative_key_def py_def)

lemma suffix_split:
  "py ''_beh.mat'' = py ''_'' @ py ''beh.mat''" "py ''_eeg.mat'' = py ''_'' @ py ''eeg.mat''"
  "py ''_channels.tsv'' = py ''_'' @ py ''channels.tsv''" "py ''_eeg.json'' = py ''_'' @ py ''eeg.json''"
  by (simp_all add: py_def)

lemma planned_eq:
  "rawfile_beh R T sid =
     truediv (truediv R (py ''02_Rawdata'')) (CanonicalRel sid (py ''beh'') T (py ''beh.mat''))"
  "rawfile_eeg R T sid =
     truediv (truediv R (py ''02_Rawdata'')) (CanonicalRel sid (py ''eeg'') T (py ''eeg.mat''))"
  "metadatafile_tsv R T sid =
     truediv (truediv R (py ''02_Rawdata'')) (CanonicalRel sid (py ''eeg'') T (py ''channels.tsv''))"
  "metadatafile_json R T sid =
     truediv (truediv R (py ''02_Rawdata'')) (CanonicalRel sid (py ''eeg'') T (py ''eeg.json''))"
  unfolding rawfile_beh_def rawfile_eeg_def metadatafile_tsv_def metadatafile_json_def Let_def
    suffix_split
  by (rule planned_rel, rule relative_dirs)+

lemma no_slash_literals:
  "ord CHR ''/'' \<notin> set (py ''beh'')" "ord CHR ''/'' \<notin> set (py ''eeg'')"
  "ord CHR ''/'' \<notin> set (py ''beh.mat'')" "ord CHR ''/'' \<notin> set (py ''eeg.mat'')"
  "ord CHR ''/'' \<notin> set (py ''channels.tsv'')" "ord CHR ''/'' \<notin> set (py ''eeg.json'')"
  "py ''beh'' \<noteq> py ''.''" "py ''eeg'' \<noteq> py ''.''"
  by (simp_all add: py_def)

text \<open>
  Claim C4. For every subject ID, task name and artifact the notebook writes, the computed
  destination is \<^verbatim>\<open><root>/sub-S/<modality-dir>/sub-S_task-<TaskName>_<suffix>\<close> with
  \<^verbatim>\<open><root> = ROOTPATH/02_Rawdata\<close>: directory \<^verbatim>\<open>beh\<close> and suffix \<^verbatim>\<open>beh.mat\<close> for the
  behavioural recording, directory \<^verbatim>\<open>eeg\<close> and suffixes \<^verbatim>\<open>eeg.mat\<close>, \<^verbatim>\<open>channels.tsv\<close> and
  \<^verbatim>\<open>eeg.json\<close> for the EEG recording, the channel table and the task document. As paths the
  two sides are equal for all inputs; as strings they are equal when neither the subject
  ID nor the task name contains \<^verbatim>\<open>/\<close>. The destination is a function of
  \<^verbatim>\<open>ROOTPATH\<close>, the task name and the subject ID alone.
\<close>

theorem destination_paths_canonical:
  "rawfile_beh R T sid =
     truediv (truediv R (py ''02_Rawdata'')) (CanonicalRel sid (py ''beh'') T (py ''beh.mat'')) \<and>
   rawfile_eeg R T sid =
     truediv (truediv R (py ''02_Rawdata'')) (CanonicalRel sid (py ''eeg'') T (py ''eeg.mat'')) \<and>
   metadatafile_tsv R T sid =
     truediv (truediv R (py ''02_Rawdata'')) (CanonicalRel sid (py ''eeg'') T (py ''channels.tsv'')) \<and>
   metadatafile_json R T sid =
     truediv (truediv R (py ''02_Rawdata'')) (CanonicalRel sid (py ''eeg'') T (py ''eeg.json'')) \<and>
   (ord CHR ''/'' \<notin> set sid \<and> ord CHR ''/'' \<notin> set T \<longrightarrow>
      str_path (rawfile_beh R T sid) =
        CanonicalPath (str_path (truediv R (py ''02_Rawdata''))) sid (py ''beh'') T (py ''beh.mat'') \<and>
      str_path (rawfile_eeg R T sid) =
        CanonicalPath (str_path (truediv R (py ''02_Rawdata''))) sid (py ''eeg'') T (py ''eeg.mat'') \<and>
      str_path (metadatafile_tsv R T sid) =
        CanonicalPath (str_path (truediv R (py ''02_Rawdata''))) sid (py ''eeg'') T (py ''channels.tsv'') \<and>
      str_path (metadatafile_json R T sid) =
        CanonicalPath (str_path (truediv R (py ''02_Rawdata''))) sid (py ''eeg'') T (py ''eeg.json''))"
proof -
  have "str_path (truediv (truediv R (py ''02_Rawdata'')) (CanonicalRel sid d T sfx)) =
        CanonicalPath (str_path (truediv R (py ''02_Rawdata''))) sid d T sfx"
    if "ord CHR ''/'' \<notin> set sid" "ord CHR ''/'' \<notin> set T"
      "(d = py ''beh'' \<and> sfx = py ''beh.mat'') \<or>
       (d = py ''eeg'' \<and> (sfx = py ''eeg.mat'' \<or> sfx = py ''channels.tsv'' \<or> sfx = py ''eeg.json''))"
    for d sfx
    using that(3) no_slash_literals relative_dirs
    by (intro str_path_planned that(1,2)) auto
  then show ?thesis
    by (simp only: planned_eq) simp
qed

text \<open>The theorem at \<^verbatim>\<open>ROOTPATH = /data\<close>, task \<^verbatim>\<open>Demo\<close>, subject \<^verbatim>\<open>01\<close>.\<close>

theorem destination_paths_canonical_witness:
  "ord CHR ''/'' \<notin> set (py ''01'') \<and> ord CHR ''/'' \<notin> set (py ''Demo'') \<and>
   str_path (rawfile_beh (Path (py ''/'') [py ''data'']) (py ''Demo'') (py ''01'')) =
     py ''/data/02_Rawdata/sub-01/beh/sub-01_task-Demo_beh.mat'' \<and>
   str_path (rawfile_eeg (Path (py ''/'') [py ''data'']) (py ''Demo'') (py ''01'')) =
     py ''/data/02_Rawdata/sub-01/eeg/sub-01_task-Demo_eeg.mat'' \<and>
   str_path (metadatafile_tsv (Path (py ''/'') [py ''data'']) (py ''Demo'') (py ''01'')) =
     py ''/data/02_Rawdata/sub-01/eeg/sub-01_task-Demo_channels.tsv'' \<and>
   str_path (metadatafile_json (Path (py ''/'') [py ''data'']) (py ''Demo'') (py ''01'')) =
     py ''/data/02_Rawdata/sub-01/eeg/sub-01_task-Demo_eeg.json''"
proof -
  have h: "ord CHR ''/'' \<notin> set (py ''01'')" "ord CHR ''/'' \<notin> set (py ''Demo'')"
    by (simp_all add: py_def)
  have r: "str_path (truediv (Path (py ''/'') [py ''data'']) (py ''02_Rawdata'')) = py ''/data/02_Rawdata''"
    by (simp add: str_path_def truediv_def splitroot_def parse_rel_def py_def)
  have c:
    "CanonicalPath (py ''/data/02_Rawdata'') (py ''01'') (py ''beh'') (py ''Demo'') (py ''beh.mat'') =
       py ''/data/02_Rawdata/sub-01/beh/sub-01_task-Demo_beh.mat''"
    "CanonicalPath (py ''/data/02_Rawdata'') (py ''01'') (py ''eeg'') (py ''Demo'') (py ''eeg.mat'') =
       py ''/data/02_Rawdata/sub-01/eeg/sub-01_task-Demo_eeg.mat''"
    "CanonicalPath (py ''/data/02_Rawdata'') (py ''01'') (py ''eeg'') (py ''Demo'') (py ''channels.tsv'') =
       py ''/data/02_Rawdata/sub-01/eeg/sub-01_task-Demo_channels.tsv''"
    "CanonicalPath (py ''/data/02_Rawdata'') (py ''01'') (py ''eeg'') (py ''Demo'') (py ''eeg.json'') =
       py ''/data/02_Rawdata/sub-01/eeg/sub-01_task-Demo_eeg.json''"
    by (simp_all add: CanonicalPath_def CanonicalRel_def py_def)
  show ?thesis
    using destination_paths_canonical [of "Path (py ''/'') [py ''data'']" "py ''Demo''" "py ''01''"] h
    unfolding r c by blast
qed

section \<open>Properties of the channel table\<close>

lemma upt_6: "[0..<6] = [0, 1, 2, 3, 4, 5]"
  by (simp add: upt_rec)

lemma length_broadcast: "length (broadcast n v) = n"
  by (cases v) (simp_all add: broadcast_def reindex_def)

lemma map_index_zip: "map (\<lambda>j. (xs ! j, f j)) [0..<length xs] = zip xs (map f [0..<length xs])"
  by (rule nth_equalityI) simp_all

lemma length_columnNames: "length columnNames = 12"
  by (simp add: columnNames_def)

lemma DataFrame_empty:
  "\<exists>cols. length cols = 12 \<and>
     DataFrame (np_empty nchannels ncolumns mem) columnNames =
       Inr \<lparr>nrows = 6, columns = zip columnNames cols\<rparr>"
proof -
  have "list_all (\<lambda>row. length row = length columnNames) (np_empty nchannels ncolumns mem)"
    by (simp add: np_empty_def ncolumns_def length_columnNames list_all_iff)
  moreover have "length (np_empty nchannels ncolumns mem) = 6"
    by (simp add: np_empty_def nchannels_def)
  ultimately have "DataFrame (np_empty nchannels ncolumns mem) columnNames =
      Inr \<lparr>nrows = 6, columns = zip columnNames
        (map (\<lambda>j. map (\<lambda>row. row ! j) (np_empty nchannels ncolumns mem)) [0..<length columnNames])\<rparr>"
    by (simp add: DataFrame_def map_index_zip)
  then show ?thesis
    by (intro exI [of _ "map (\<lambda>j. map (\<lambda>row. row ! j) (np_empty nchannels ncolumns mem))
          [0..<length columnNames]"]) (simp add: length_columnNames)
qed

lemma length_12:
  assumes "length xs = 12"
  obtains x0 x1 x2 x3 x4 x5 x6 x7 x8 x9 x10 x11
  where "xs = [x0, x1, x2, x3, x4, x5, x6, x7, x8, x9, x10, x11]"
proof -
  from assms have "length xs = Suc (Suc (Suc (Suc (Suc (Suc (Suc (Suc (Suc (Suc (Suc (Suc 0)))))))))))"
    by simp
  then show ?thesis
    using that by (auto simp: length_Suc_conv)
qed

lemma MetaData_frame:
  "MetaData mem sid =
     Inr \<lparr>nrows = 6,
          columns =
            [(py ''name'', map (\<lambda>x. Str (py x)) [''Iz'', ''Oz'', ''POz'', ''O1'', ''O2'', ''TRIG'']),
             (py ''type'', map (\<lambda>x. Str (py x)) [''EEG'', ''EEG'', ''EEG'', ''EEG'', ''EEG'', ''TRIG'']),
             (py ''units'', replicate 6 (Str [0x3BC, ord CHR ''V''])),
             (py ''low_cutoff'', replicate 6 (Num 100)),
             (py ''high_cutoff'', replicate 6 (Num 1)),
             (py ''reference'', map (\<lambda>x. Str (py x)) [''ear'', ''ear'', ''ear'', ''ear'', ''ear'', ''n/a'']),
             (py ''group'', replicate 6 (Num 1)),
             (py ''sampling_frequency'', replicate 6 (Num 1200)),
             (py ''description'', replicate 6 (Str (py ''n/a''))),
             (py ''notch'', replicate 6 (Num 50)),
             (py ''status'', broadcast 6 (snd (channel_status sid ! 0))),
             (py ''Status_description'', broadcast 6 (snd (channel_status sid ! 1)))]\<rparr>"
proof -
  obtain a b where cs: "channel_status sid = [(py ''status'', a), (py ''Status_description'', b)]"
    by (cases "sid = py ''01''"; cases "sid = py ''02''") (simp_all add: channel_status_def)
  obtain cols where len: "length cols = 12"
    and df: "DataFrame (np_empty nchannels ncolumns mem) columnNames =
       Inr \<lparr>nrows = 6, columns = zip columnNames cols\<rparr>"
    using DataFrame_empty by blast
  from len obtain x0 x1 x2 x3 x4 x5 x6 x7 x8 x9 x10 x11
    where cols: "cols = [x0, x1, x2, x3, x4, x5, x6, x7, x8, x9, x10, x11]"
    by (rule length_12)
  show ?thesis
    unfolding MetaData_def df cs cols
    by (simp add: upt_6 columnNames_def properties_def setattr_def setitem_def py_def
        strs_def broadcast_def reindex_def)
qed


lemma channel_status_cases:
  "channel_status (py ''01'') =
     [(py ''status'', strs [''GOOD'', ''BAD'', ''GOOD'', ''GOOD'', ''GOOD'', ''GOOD'']),
      (py ''Status_description'',
       strs [''n/a'', ''Channel exessively noisy through, suspect broken electrode'',
             ''n/a'', ''n/a'', ''n/a'', ''n/a''])]"
  "channel_status (py ''02'') =
     [(py ''status'', strs [''OK'', ''OK'', ''OK'', ''OK'', ''OK'', ''OK'']),
      (py ''Status_description'',
       Scalar (Str (py ''Regular artifact throughout, suspect electrical interference'')))]"
  "sid \<noteq> py ''01'' \<Longrightarrow> sid \<noteq> py ''02'' \<Longrightarrow> channel_status sid =
     [(py ''status'', strs [''GOOD'', ''GOOD'', ''GOOD'', ''GOOD'', ''GOOD'', ''GOOD'']),
      (py ''Status_description'', strs [''n/a'', ''n/a'', ''n/a'', ''n/a'', ''n/a'', ''n/a''])]"
  by (simp_all add: channel_status_def py_def)

text \<open>Unfolding these evaluates the written text and the columns of a table.\<close>

lemmas csv_eval = to_csv_def to_csv_fields_def csv_cell_def csv_quote_def str_int_def
  digits_nat.simps upt_6 strs_def broadcast_def reindex_def py_def

text \<open>
  Claim C5. For every subject the emitted channel table is tab-separated: a header line with
  exactly the columns name, type, units, low_cutoff, high_cutoff, reference, group,
  sampling_frequency, description, notch, status, Status_description in that order, no row
  index, then exactly six lines in the channel order Iz, Oz, POz, O1, O2, TRIG. The TRIG row
  has type \<^verbatim>\<open>TRIG\<close> and reference \<^verbatim>\<open>n/a\<close>; the five other rows have type \<^verbatim>\<open>EEG\<close> and reference
  \<^verbatim>\<open>ear\<close>; units, cutoffs, group, sampling frequency, description and notch are the same in
  all six. A missing cell is written as \<^verbatim>\<open>n/a\<close>. This holds whatever the uninitialised
  array held and however floats print.
\<close>

theorem channel_table_tsv:
  "channels_tsv float_repr mem sid =
       Inr (let st = (if sid = py ''01'' then map py [''GOOD'', ''BAD'', ''GOOD'', ''GOOD'', ''GOOD'', ''GOOD'']
                  else if sid = py ''02'' then replicate 6 (py ''OK'')
                  else replicate 6 (py ''GOOD''));
            sd = (if sid = py ''01'' then
                    map py [''n/a'', ''Channel exessively noisy through, suspect broken electrode'',
                            ''n/a'', ''n/a'', ''n/a'', ''n/a'']
                  else if sid = py ''02'' then
                    replicate 6 (py ''Regular artifact throughout, suspect electrical interference'')
                  else replicate 6 (py ''n/a''))
        in concat (map (\<lambda>fields. join [ord CHR 0x09] fields @ [ord CHR 0x0A])
             (map py [''name'', ''type'', ''units'', ''low_cutoff'', ''high_cutoff'', ''reference'',
                      ''group'', ''sampling_frequency'', ''description'', ''notch'', ''status'',
                      ''Status_description''] #
              map (\<lambda>(name, type, reference, i).
                     [py name, py type, [0x3BC, ord CHR ''V''], py ''100'', py ''1'', py reference,
                      py ''1'', py ''1200'', py ''n/a'', py ''50'', st ! i, sd ! i])
                [(''Iz'', ''EEG'', ''ear'', 0), (''Oz'', ''EEG'', ''ear'', 1),
                 (''POz'', ''EEG'', ''ear'', 2), (''O1'', ''EEG'', ''ear'', 3),
                 (''O2'', ''EEG'', ''ear'', 4), (''TRIG'', ''TRIG'', ''n/a'', 5)]))) \<and>
   csv_cell float_repr NaN = py ''n/a''"
proof -
  consider "sid = py ''01''" | "sid = py ''02''" | "sid \<noteq> py ''01''" "sid \<noteq> py ''02''"
    by blast
  then show ?thesis
  proof cases
    case 1
    show ?thesis
      unfolding channels_tsv_def MetaData_frame 1 channel_status_cases
      by (simp add: csv_eval)
  next
    case 2
    show ?thesis
      unfolding channels_tsv_def MetaData_frame 2 channel_status_cases
      by (simp add: csv_eval)
  next
    case 3
    show ?thesis
      unfolding channels_tsv_def MetaData_frame channel_status_cases(3) [OF 3]
      using 3 by (simp add: csv_eval)
  qed
qed


lemma replicate_6: "replicate 6 x = [x, x, x, x, x, x]"
  by (simp add: numeral_eq_Suc)

lemmas column_eval = replicate_6 column_def getitem_def strs_def broadcast_def reindex_def upt_6 py_def

text \<open>
  Claim C6. In the channel table built for subject \<^verbatim>\<open>01\<close> the second row (channel Oz) has
  status \<^verbatim>\<open>BAD\<close> and the other five rows have status \<^verbatim>\<open>GOOD\<close>; for every subject other than
  \<^verbatim>\<open>01\<close> and \<^verbatim>\<open>02\<close> (those with no override) all six status cells are \<^verbatim>\<open>GOOD\<close> and all six
  Status_description cells are \<^verbatim>\<open>n/a\<close>.
\<close>

theorem channel_status_cells:
  "column (MetaData mem (py ''01'')) (py ''name'') =
     Some (map (\<lambda>x. Str (py x)) [''Iz'', ''Oz'', ''POz'', ''O1'', ''O2'', ''TRIG'']) \<and>
   column (MetaData mem (py ''01'')) (py ''status'') =
     Some (map (\<lambda>x. Str (py x)) [''GOOD'', ''BAD'', ''GOOD'', ''GOOD'', ''GOOD'', ''GOOD'']) \<and>
   (sid \<noteq> py ''01'' \<and> sid \<noteq> py ''02'' \<longrightarrow>
      column (MetaData mem sid) (py ''status'') = Some (replicate 6 (Str (py ''GOOD''))) \<and>
      column (MetaData mem sid) (py ''Status_description'') = Some (replicate 6 (Str (py ''n/a''))))"
proof -
  have "column (MetaData mem (py ''01'')) (py ''name'') =
     Some (map (\<lambda>x. Str (py x)) [''Iz'', ''Oz'', ''POz'', ''O1'', ''O2'', ''TRIG''])"
    unfolding MetaData_frame channel_status_cases by (simp add: column_eval)
  moreover have "column (MetaData mem (py ''01'')) (py ''status'') =
     Some (map (\<lambda>x. Str (py x)) [''GOOD'', ''BAD'', ''GOOD'', ''GOOD'', ''GOOD'', ''GOOD''])"
    unfolding MetaData_frame channel_status_cases by (simp add: column_eval)
  moreover have "column (MetaData mem sid) (py ''status'') = Some (replicate 6 (Str (py ''GOOD''))) \<and>
      column (MetaData mem sid) (py ''Status_description'') = Some (replicate 6 (Str (py ''n/a'')))"
    if "sid \<noteq> py ''01''" "sid \<noteq> py ''02''"
    unfolding MetaData_frame channel_status_cases(3) [OF that]
    by (simp add: column_eval)
  ultimately show ?thesis by blast
qed

text \<open>The theorem at subject \<^verbatim>\<open>03\<close>.\<close>

theorem channel_status_cells_witness:
  "py ''03'' \<noteq> py ''01'' \<and> py ''03'' \<noteq> py ''02'' \<and>
   column (MetaData zeros (py ''03'')) (py ''status'') = Some (replicate 6 (Str (py ''GOOD''))) \<and>
   column (MetaData zeros (py ''03'')) (py ''Status_description'') = Some (replicate 6 (Str (py ''n/a'')))"
proof -
  have h: "py ''03'' \<noteq> py ''01''" "py ''03'' \<noteq> py ''02''"
    by (simp_all add: py_def)
  show ?thesis
    using channel_status_cells [of zeros "py ''03''"] h by blast
qed

text \<open>
  Claim C7 (amended). The channel-table build raises no error for any subject; for subject
  \<^verbatim>\<open>02\<close>, whose Status_description override is a single scalar string, the scalar is
  repeated in all six rows.
\<close>

theorem scalar_override_broadcast:
  "\<not> isl (MetaData mem sid) \<and>
   column (MetaData mem (py ''02'')) (py ''status'') = Some (replicate 6 (Str (py ''OK''))) \<and>
   column (MetaData mem (py ''02'')) (py ''Status_description'') =
     Some (replicate 6 (Str (py ''Regular artifact throughout, suspect electrical interference'')))"
proof -
  have "\<not> isl (MetaData mem sid)"
    unfolding MetaData_frame by simp
  moreover have "column (MetaData mem (py ''02'')) (py ''status'') = Some (replicate 6 (Str (py ''OK'')))"
    unfolding MetaData_frame channel_status_cases by (simp add: column_eval)
  moreover have "column (MetaData mem (py ''02'')) (py ''Status_description'') =
     Some (replicate 6 (Str (py ''Regular artifact throughout, suspect electrical interference'')))"
    unfolding MetaData_frame channel_status_cases by (simp add: column_eval)
  ultimately show ?thesis by blast
qed

text \<open>
  C7 as stated fails at subject \<^verbatim>\<open>02\<close>: the build returns a table, with the scalar in every
  row of Status_description.
\<close>

theorem scalar_override_counterexample:
  "MetaData zeros (py ''02'') =
     Inr \<lparr>nrows = 6,
          columns =
            [(py ''name'', map (\<lambda>x. Str (py x)) [''Iz'', ''Oz'', ''POz'', ''O1'', ''O2'', ''TRIG'']),
             (py ''type'', map (\<lambda>x. Str (py x)) [''EEG'', ''EEG'', ''EEG'', ''EEG'', ''EEG'', ''TRIG'']),
             (py ''units'', replicate 6 (Str [0x3BC, ord CHR ''V''])),
             (py ''low_cutoff'', replicate 6 (Num 100)),
             (py ''high_cutoff'', replicate 6 (Num 1)),
             (py ''reference'', map (\<lambda>x. Str (py x)) [''ear'', ''ear'', ''ear'', ''ear'', ''ear'', ''n/a'']),
             (py ''group'', replicate 6 (Num 1)),
             (py ''sampling_frequency'', replicate 6 (Num 1200)),
             (py ''description'', replicate 6 (Str (py ''n/a''))),
             (py ''notch'', replicate 6 (Num 50)),
             (py ''status'', replicate 6 (Str (py ''OK''))),
             (py ''Status_description'',
              replicate 6 (Str (py ''Regular artifact throughout, suspect electrical interference'')))]\<rparr>"
  unfolding MetaData_frame channel_status_cases
  by (simp add: strs_def broadcast_def reindex_def upt_6 replicate_6)

section \<open>Properties of the task document\<close>

lemma dump_second_member:
  assumes "rest \<noteq> []"
  shows "dump (JObj (a # (k, JStr t) # rest)) =
    (py ''{'' @ newline_indent 2 1 @
       (case a of (key, v) \<Rightarrow> encode_basestring_ascii key @ py '': '' @ iterencode 2 1 v) @
       py '','' @ newline_indent 2 1 @ encode_basestring_ascii k @ py '': '') @
    encode_basestring_ascii t @
    (py '','' @ newline_indent 2 1 @
       join (py '','' @ newline_indent 2 1)
         (map (\<lambda>(key, v). encode_basestring_ascii key @ py '': '' @ iterencode 2 1 v) rest) @
       newline_indent 2 0 @ py ''}'')"
proof -
  obtain r rs where "rest = r # rs"
    using assms by (cases rest) auto
  then show ?thesis
    by (simp add: dump_def split: prod.splits)
qed

lemma metadata_shape:
  "\<exists>a rest. rest \<noteq> [] \<and> (\<forall>t. metadata t = JObj (a # (py ''TaskName'', JStr t) # rest))"
  unfolding metadata_def by blast

lemma dump_metadata:
  "\<exists>pre post. \<forall>t. dump (metadata t) = pre @ encode_basestring_ascii t @ post"
proof -
  obtain a rest where ne: "rest \<noteq> []"
    and m: "\<And>t. metadata t = JObj (a # (py ''TaskName'', JStr t) # rest)"
    using metadata_shape by blast
  show ?thesis
    unfolding m dump_second_member [OF ne] by blast
qed

lemma metadata_TaskName:
  "map_of (members (metadata T)) (py ''TaskName'') = Some (JStr T)"
  by (simp add: metadata_def py_def)

lemma metadata_keys: "map fst (members (metadata T)) = map fst (members (metadata T'))"
  by (simp add: metadata_def)

lemma metadata_other:
  "k \<noteq> py ''TaskName'' \<Longrightarrow> map_of (members (metadata T)) k = map_of (members (metadata T')) k"
  by (simp add: metadata_def)

text \<open>
  Claim C8. For every pair of source files (subjects) and every fixed task name, the two
  task-metadata JSON documents the loop writes are identical: no field depends on the
  subject. The \<^verbatim>\<open>TaskName\<close> field is the configured task name, and every other field is a
  constant: two task names give the same keys and the same value under every key but
  \<^verbatim>\<open>TaskName\<close>, and the written text is a fixed text around the escaped task name.
\<close>

theorem task_document_subject_independent:
  "(eeg_json R T f1 = Inr (m1, d1) \<and> eeg_json R T f2 = Inr (m2, d2) \<longrightarrow> d1 = d2) \<and>
   map_of (members (metadata T)) (py ''TaskName'') = Some (JStr T) \<and>
   map fst (members (metadata T)) = map fst (members (metadata T')) \<and>
   (\<forall>k. k \<noteq> py ''TaskName'' \<longrightarrow>
      map_of (members (metadata T)) k = map_of (members (metadata T')) k) \<and>
   (\<exists>pre post. \<forall>t. dump (metadata t) = pre @ encode_basestring_ascii t @ post)"
proof -
  have "d1 = d2" if "eeg_json R T f1 = Inr (m1, d1)" "eeg_json R T f2 = Inr (m2, d2)"
    using that by (auto simp: eeg_json_def split: sum.splits)
  then show ?thesis
    using metadata_TaskName metadata_keys metadata_other dump_metadata by blast
qed

text \<open>Unfolding these evaluates the folder name of a literal path.\<close>

lemmas pname_eval = pname_def parent_def str_path_def split_sep.simps join.simps

text \<open>
  The theorem at \<^verbatim>\<open>ROOTPATH = /data\<close>, task \<^verbatim>\<open>Demo\<close> and the source files
  \<^verbatim>\<open>/data/01_Sourcedata/S1_x/eeg001.mat\<close> and \<^verbatim>\<open>/data/01_Sourcedata/S2_y/eeg001.mat\<close>.
\<close>

theorem task_document_subject_independent_witness:
  "eeg_json (Path (py ''/'') [py ''data'']) (py ''Demo'')
     (Path (py ''/'') [py ''data'', py ''01_Sourcedata'', py ''S1_x'', py ''eeg001.mat'']) =
     Inr (metadatafile_json (Path (py ''/'') [py ''data'']) (py ''Demo'') (py ''01''),
          dump (metadata (py ''Demo''))) \<and>
   eeg_json (Path (py ''/'') [py ''data'']) (py ''Demo'')
     (Path (py ''/'') [py ''data'', py ''01_Sourcedata'', py ''S2_y'', py ''eeg001.mat'']) =
     Inr (metadatafile_json (Path (py ''/'') [py ''data'']) (py ''Demo'') (py ''02''),
          dump (metadata (py ''Demo''))) \<and>
   py ''SamplingFrequency'' \<noteq> py ''TaskName'' \<and>
   map_of (members (metadata (py ''Demo''))) (py ''SamplingFrequency'') =
     map_of (members (metadata (py ''Other''))) (py ''SamplingFrequency'')"
proof -
  have p1: "pname (Path (py ''/'') [py ''data'', py ''01_Sourcedata'', py ''S1_x'', py ''eeg001.mat'']) = py ''S1_x''"
    by (simp add: pname_eval py_def)
  have p2: "pname (Path (py ''/'') [py ''data'', py ''01_Sourcedata'', py ''S2_y'', py ''eeg001.mat'']) = py ''S2_y''"
    by (simp add: pname_eval py_def)
  have s1: "subID (py ''S1_x'') = Inr (py ''01'')" by (simp add: subID_eval)
  have s2: "subID (py ''S2_y'') = Inr (py ''02'')" by (simp add: subID_eval)
  have e1: "eeg_json (Path (py ''/'') [py ''data'']) (py ''Demo'')
     (Path (py ''/'') [py ''data'', py ''01_Sourcedata'', py ''S1_x'', py ''eeg001.mat'']) =
     Inr (metadatafile_json (Path (py ''/'') [py ''data'']) (py ''Demo'') (py ''01''),
          dump (metadata (py ''Demo'')))"
    by (simp add: eeg_json_def p1 s1)
  have e2: "eeg_json (Path (py ''/'') [py ''data'']) (py ''Demo'')
     (Path (py ''/'') [py ''data'', py ''01_Sourcedata'', py ''S2_y'', py ''eeg001.mat'']) =
     Inr (metadatafile_json (Path (py ''/'') [py ''data'']) (py ''Demo'') (py ''02''),
          dump (metadata (py ''Demo'')))"
    by (simp add: eeg_json_def p2 s2)
  have k: "py ''SamplingFrequency'' \<noteq> py ''TaskName''"
    by (simp add: py_def)
  show ?thesis
    using task_document_subject_independent [of
        "Path (py ''/'') [py ''data'']" "py ''Demo''"
        "Path (py ''/'') [py ''data'', py ''01_Sourcedata'', py ''S1_x'', py ''eeg001.mat'']"
        "metadatafile_json (Path (py ''/'') [py ''data'']) (py ''Demo'') (py ''01'')"
        "dump (metadata (py ''Demo''))"
        "Path (py ''/'') [py ''data'', py ''01_Sourcedata'', py ''S2_y'', py ''eeg001.mat'']"
        "metadatafile_json (Path (py ''/'') [py ''data'']) (py ''Demo'') (py ''02'')"
        "dump (metadata (py ''Demo''))" "py ''Other''"]
      e1 e2 k by blast
qed

section \<open>Properties of the copy\<close>

lemma lookup_File: "lookup fs p = Some (File c) \<longleftrightarrow> parts p \<noteq> [] \<and> fs p = Some (File c)"
  by (simp add: lookup_def)

lemma copyfile_Inr_iff:
  "copyfile fs src dst = Inr fs' \<longleftrightarrow>
     (\<exists>content. lookup fs src = Some (File content) \<and> src \<noteq> dst \<and>
        lookup fs (parent dst) = Some Dir \<and> lookup fs dst \<noteq> Some Dir \<and>
        fs' = fs(dst \<mapsto> File content))"
  by (auto simp: copyfile_def split: option.splits node.splits)

lemma os_mkdir_Inr:
  "os_mkdir fs p = Inr fs' \<longleftrightarrow>
     lookup fs (parent p) = Some Dir \<and> lookup fs p = None \<and> fs' = fs(p \<mapsto> Dir)"
  by (auto simp: os_mkdir_def)

lemma os_mkdir_Inl:
  "os_mkdir fs p = Inl e \<Longrightarrow> e \<noteq> FileNotFoundError \<Longrightarrow> lookup fs (parent p) \<noteq> None"
  by (auto simp: os_mkdir_def split: if_splits)

lemma lookup_None: "lookup fs p = None \<Longrightarrow> parts p \<noteq> [] \<and> fs p = None"
  by (cases "parts p = []") (simp_all add: lookup_def)

lemma mkdir_cases:
  assumes "mkdir fs p = Inr fs'"
  shows "os_mkdir fs p = Inr fs' \<or>
    (\<exists>e. os_mkdir fs p = Inl e \<and> e \<noteq> FileNotFoundError \<and> lookup fs p = Some Dir \<and> fs' = fs) \<or>
    (os_mkdir fs p = Inl FileNotFoundError \<and> parent p \<noteq> p \<and>
      (\<exists>fs1. mkdir fs (parent p) = Inr fs1 \<and>
         (os_mkdir fs1 p = Inr fs' \<or>
          (\<exists>e'. os_mkdir fs1 p = Inl e' \<and> e' \<noteq> FileNotFoundError \<and>
                lookup fs1 p = Some Dir \<and> fs' = fs1))))"
  using assms by (subst (asm) mkdir.simps) (auto split: sum.splits if_splits)

lemma os_mkdir_adds_dir:
  "os_mkdir fs p = Inr fs' \<Longrightarrow> fs' q = fs q \<or> (fs q = None \<and> fs' q = Some Dir)"
  by (auto simp: os_mkdir_Inr dest: lookup_None)

lemma mkdir_adds_dirs:
  "mkdir fs p = Inr fs' \<Longrightarrow> fs' q = fs q \<or> (fs q = None \<and> fs' q = Some Dir)"
proof (induction fs p arbitrary: fs' rule: mkdir.induct)
  case (1 fs p)
  from mkdir_cases [OF "1.prems"] consider
    (direct) "os_mkdir fs p = Inr fs'"
    | (exists) "fs' = fs"
    | (parents) fs1 where "os_mkdir fs p = Inl FileNotFoundError" "parent p \<noteq> p"
        "mkdir fs (parent p) = Inr fs1" "os_mkdir fs1 p = Inr fs' \<or> fs' = fs1"
    by blast
  then show ?case
  proof cases
    case direct
    then show ?thesis by (rule os_mkdir_adds_dir)
  next
    case exists
    then show ?thesis by simp
  next
    case parents
    from "1.IH" [OF parents(1) refl parents(2,3)]
    have step: "fs1 q = fs q \<or> (fs q = None \<and> fs1 q = Some Dir)" .
    from parents(4) have "fs' q = fs1 q \<or> (fs1 q = None \<and> fs' q = Some Dir)"
      using os_mkdir_adds_dir [of fs1 p fs' q] by auto
    with step show ?thesis by auto
  qed
qed

lemma mkdir_files:
  "mkdir fs p = Inr fs' \<Longrightarrow> fs' q = Some (File c) \<longleftrightarrow> fs q = Some (File c)"
  using mkdir_adds_dirs [of fs p fs' q] by auto

lemma os_mkdir_result:
  "os_mkdir fs p = Inr fs' \<Longrightarrow> lookup fs' (parent p) \<noteq> None \<and> lookup fs' p = Some Dir"
  by (auto simp: os_mkdir_Inr lookup_def)

lemma mkdir_result:
  assumes "mkdir fs p = Inr fs'"
  shows "lookup fs' (parent p) \<noteq> None \<and> lookup fs' p = Some Dir"
  using mkdir_cases [OF assms] by (auto dest: os_mkdir_result os_mkdir_Inl)

lemma mkdir_existing:
  assumes "lookup fs (parent p) \<noteq> None" and "lookup fs p = Some Dir"
  shows "mkdir fs p = Inr fs"
proof -
  from assms obtain e where "os_mkdir fs p = Inl e" "e \<noteq> FileNotFoundError"
    by (cases "lookup fs (parent p) = Some Dir") (auto simp: os_mkdir_def)
  with assms(2) show ?thesis
    by (simp add: mkdir.simps [of fs p])
qed

lemma lookup_upd_other: "q \<noteq> p \<Longrightarrow> lookup (fs(p \<mapsto> n)) q = lookup fs q"
  by (simp add: lookup_def)

lemma lookup_upd_defined: "lookup fs q \<noteq> None \<Longrightarrow> lookup (fs(p \<mapsto> n)) q \<noteq> None"
  by (cases "parts q = []") (simp_all add: lookup_def)

lemma mkdir_copyfile:
  assumes m: "mkdir fs d = Inr fs1" and c: "copyfile fs1 src dst = Inr fs'"
  shows "\<exists>content. fs src = Some (File content) \<and> fs' dst = Some (File content) \<and>
           fs' src = Some (File content) \<and>
           (\<forall>q. q \<noteq> dst \<longrightarrow> (\<forall>x. fs' q = Some (File x) \<longleftrightarrow> fs q = Some (File x)))"
    and "mkdir fs' d = Inr fs'" and "copyfile fs' src dst = Inr fs'"
proof -
  from c obtain content where src: "lookup fs1 src = Some (File content)" and ne: "src \<noteq> dst"
    and par: "lookup fs1 (parent dst) = Some Dir" and nd: "lookup fs1 dst \<noteq> Some Dir"
    and fs': "fs' = fs1(dst \<mapsto> File content)"
    unfolding copyfile_Inr_iff by blast
  from src have "fs1 src = Some (File content)"
    by (simp add: lookup_File)
  with m have "fs src = Some (File content)"
    by (simp add: mkdir_files)
  moreover have "fs' dst = Some (File content)" "fs' src = Some (File content)"
    using fs' ne \<open>fs1 src = Some (File content)\<close> by simp_all
  moreover have "fs' q = Some (File x) \<longleftrightarrow> fs q = Some (File x)" if "q \<noteq> dst" for q x
    using that fs' mkdir_files [OF m] by simp
  ultimately show "\<exists>content. fs src = Some (File content) \<and> fs' dst = Some (File content) \<and>
           fs' src = Some (File content) \<and>
           (\<forall>q. q \<noteq> dst \<longrightarrow> (\<forall>x. fs' q = Some (File x) \<longleftrightarrow> fs q = Some (File x)))"
    by blast
  from mkdir_result [OF m] have d: "lookup fs1 (parent d) \<noteq> None" "lookup fs1 d = Some Dir"
    by simp_all
  with nd have "d \<noteq> dst" by auto
  then have "lookup fs' d = Some Dir"
    using d(2) fs' by (simp add: lookup_upd_other)
  moreover have "lookup fs' (parent d) \<noteq> None"
    using d(1) fs' by (simp add: lookup_upd_defined)
  ultimately show "mkdir fs' d = Inr fs'"
    by (simp add: mkdir_existing)
  have pd: "parts dst \<noteq> []"
    using nd by (auto simp: lookup_def)
  have 1: "lookup fs' src = Some (File content)"
    using src ne fs' by (simp add: lookup_upd_other)
  have 2: "lookup fs' (parent dst) = Some Dir"
  proof -
    from par nd have "parent dst \<noteq> dst" by metis
    with par fs' show ?thesis by (simp add: lookup_upd_other)
  qed
  have 3: "lookup fs' dst \<noteq> Some Dir"
    using fs' pd by (simp add: lookup_def)
  have 4: "fs' = fs'(dst \<mapsto> File content)"
    using fs' by simp
  show "copyfile fs' src dst = Inr fs'"
    unfolding copyfile_Inr_iff using 1 ne 2 3 4 by (intro exI [of _ content] conjI)
qed


lemma transfer_generic:
  assumes "(case subID (pname fpath) of
              Inl e \<Rightarrow> Inl e
            | Inr sid \<Rightarrow> (case mkdir fs (d sid) of Inl e \<Rightarrow> Inl e
                          | Inr fs1 \<Rightarrow> copyfile fs1 fpath (rawfile sid))) = Inr fs'"
  shows "(\<exists>sid content. subID (pname fpath) = Inr sid \<and> fs fpath = Some (File content) \<and>
            fs' (rawfile sid) = Some (File content) \<and> fs' fpath = Some (File content) \<and>
            (\<forall>q. q \<noteq> rawfile sid \<longrightarrow> (\<forall>x. fs' q = Some (File x) \<longleftrightarrow> fs q = Some (File x)))) \<and>
         (case subID (pname fpath) of
              Inl e \<Rightarrow> Inl e
            | Inr sid \<Rightarrow> (case mkdir fs' (d sid) of Inl e \<Rightarrow> Inl e
                          | Inr fs1 \<Rightarrow> copyfile fs1 fpath (rawfile sid))) = Inr fs'"
proof -
  from assms obtain sid fs1 where sid: "subID (pname fpath) = Inr sid"
    and m: "mkdir fs (d sid) = Inr fs1" and c: "copyfile fs1 fpath (rawfile sid) = Inr fs'"
    by (auto split: sum.splits)
  from mkdir_copyfile [OF m c] sid show ?thesis
    by simp
qed

text \<open>
  Claim C9. For every source recording file, a pass of the behavioural or of the EEG loop
  that completes leaves at the destination exactly the bytes of the source file (the source
  keeps them, and no other file changes), and running the pass again, when the destination
  already exists, completes with the same result: the destination is overwritten and no
  error is raised. For \<^verbatim>\<open>copyfile\<close> itself: when the destination is an existing file other
  than the source, in an existing directory, the copy returns and the destination holds the
  source's bytes; in general it returns exactly when the source is a file, the destination
  is another path that is no directory, and the destination's directory exists.
\<close>

theorem copy_exact_and_overwrites:
  "(transfer_beh R T fs fpath = Inr fs' \<longrightarrow>
      (\<exists>sid content. subID (pname fpath) = Inr sid \<and> fs fpath = Some (File content) \<and>
         fs' (rawfile_beh R T sid) = Some (File content) \<and> fs' fpath = Some (File content) \<and>
         (\<forall>q. q \<noteq> rawfile_beh R T sid \<longrightarrow>
            (\<forall>x. fs' q = Some (File x) \<longleftrightarrow> fs q = Some (File x)))) \<and>
      transfer_beh R T fs' fpath = Inr fs') \<and>
   (transfer_eeg R T fs fpath = Inr fs' \<longrightarrow>
      (\<exists>sid content. subID (pname fpath) = Inr sid \<and> fs fpath = Some (File content) \<and>
         fs' (rawfile_eeg R T sid) = Some (File content) \<and> fs' fpath = Some (File content) \<and>
         (\<forall>q. q \<noteq> rawfile_eeg R T sid \<longrightarrow>
            (\<forall>x. fs' q = Some (File x) \<longleftrightarrow> fs q = Some (File x)))) \<and>
      transfer_eeg R T fs' fpath = Inr fs') \<and>
   (lookup fs src = Some (File content) \<and> lookup fs dst = Some (File old) \<and> src \<noteq> dst \<and>
    lookup fs (parent dst) = Some Dir \<longrightarrow>
      copyfile fs src dst = Inr (fs(dst \<mapsto> File content))) \<and>
   (copyfile fs src dst = Inr fs' \<longleftrightarrow>
      (\<exists>bytes. lookup fs src = Some (File bytes) \<and> src \<noteq> dst \<and>
         lookup fs (parent dst) = Some Dir \<and> lookup fs dst \<noteq> Some Dir \<and>
         fs' = fs(dst \<mapsto> File bytes)))"
proof (intro conjI impI)
  assume "transfer_beh R T fs fpath = Inr fs'"
  from transfer_generic [OF this [unfolded transfer_beh_def]]
  show "\<exists>sid content. subID (pname fpath) = Inr sid \<and> fs fpath = Some (File content) \<and>
         fs' (rawfile_beh R T sid) = Some (File content) \<and> fs' fpath = Some (File content) \<and>
         (\<forall>q. q \<noteq> rawfile_beh R T sid \<longrightarrow>
            (\<forall>x. fs' q = Some (File x) \<longleftrightarrow> fs q = Some (File x)))"
    and "transfer_beh R T fs' fpath = Inr fs'"
    unfolding transfer_beh_def by blast+
next
  assume "transfer_eeg R T fs fpath = Inr fs'"
  from transfer_generic [OF this [unfolded transfer_eeg_def]]
  show "\<exists>sid content. subID (pname fpath) = Inr sid \<and> fs fpath = Some (File content) \<and>
         fs' (rawfile_eeg R T sid) = Some (File content) \<and> fs' fpath = Some (File content) \<and>
         (\<forall>q. q \<noteq> rawfile_eeg R T sid \<longrightarrow>
            (\<forall>x. fs' q = Some (File x) \<longleftrightarrow> fs q = Some (File x)))"
    and "transfer_eeg R T fs' fpath = Inr fs'"
    unfolding transfer_eeg_def by blast+
next
  assume "lookup fs src = Some (File content) \<and> lookup fs dst = Some (File old) \<and> src \<noteq> dst \<and>
    lookup fs (parent dst) = Some Dir"
  then show "copyfile fs src dst = Inr (fs(dst \<mapsto> File content))"
    unfolding copyfile_Inr_iff by (intro exI [of _ content]) simp
next
  show "copyfile fs src dst = Inr fs' \<longleftrightarrow>
      (\<exists>bytes. lookup fs src = Some (File bytes) \<and> src \<noteq> dst \<and>
         lookup fs (parent dst) = Some Dir \<and> lookup fs dst \<noteq> Some Dir \<and>
         fs' = fs(dst \<mapsto> File bytes))"
    by (rule copyfile_Inr_iff)
qed


text \<open>Unfolding these evaluates a pass of the loop on the sample tree.\<close>

lemmas sample_eval = sample_root_def sample_src_def sample_dst_def sample_fs_def sample_after_def

lemmas transfer_eval = truediv_def splitroot_def parse_rel_def lookup_def os_mkdir_def parent_def
  copyfile_def mkdir.simps rawfile_beh_def rawfile_eeg_def

lemma sample_names:
  "subID (pname (sample_src ''eeg001.mat'')) = Inr (py ''01'')"
  "subID (pname (sample_src ''bhv001.mat'')) = Inr (py ''01'')"
  by (simp_all add: sample_eval pname_eval subID_eval)

lemma sample_eeg:
  "transfer_eeg sample_root (py ''Demo'') sample_fs (sample_src ''eeg001.mat'') =
     Inr (sample_after ''eeg'' ''sub-01_task-Demo_eeg.mat'' ''abc'')"
  unfolding transfer_eeg_def sample_names
  by (simp add: sample_eval transfer_eval py_def)

lemma sample_beh:
  "transfer_beh sample_root (py ''Demo'') sample_fs (sample_src ''bhv001.mat'') =
     Inr (sample_after ''beh'' ''sub-01_task-Demo_beh.mat'' ''xyz'')"
  unfolding transfer_beh_def sample_names
  by (simp add: sample_eval transfer_eval py_def)


text \<open>
  The theorem on the sample tree: each recording is copied, copied again over the existing
  destination, and \<^verbatim>\<open>copyfile\<close> replaces a destination that held other bytes.
\<close>

theorem copy_exact_and_overwrites_witness:
  "transfer_beh sample_root (py ''Demo'') sample_fs (sample_src ''bhv001.mat'') =
     Inr (sample_after ''beh'' ''sub-01_task-Demo_beh.mat'' ''xyz'') \<and>
   transfer_beh sample_root (py ''Demo'') (sample_after ''beh'' ''sub-01_task-Demo_beh.mat'' ''xyz'')
     (sample_src ''bhv001.mat'') =
     Inr (sample_after ''beh'' ''sub-01_task-Demo_beh.mat'' ''xyz'') \<and>
   transfer_eeg sample_root (py ''Demo'') sample_fs (sample_src ''eeg001.mat'') =
     Inr (sample_after ''eeg'' ''sub-01_task-Demo_eeg.mat'' ''abc'') \<and>
   transfer_eeg sample_root (py ''Demo'') (sample_after ''eeg'' ''sub-01_task-Demo_eeg.mat'' ''abc'')
     (sample_src ''eeg001.mat'') =
     Inr (sample_after ''eeg'' ''sub-01_task-Demo_eeg.mat'' ''abc'') \<and>
   lookup (sample_after ''eeg'' ''sub-01_task-Demo_eeg.mat'' ''old'') (sample_src ''eeg001.mat'') =
     Some (File ''abc'') \<and>
   lookup (sample_after ''eeg'' ''sub-01_task-Demo_eeg.mat'' ''old'')
     (sample_dst ''eeg'' ''sub-01_task-Demo_eeg.mat'') = Some (File ''old'') \<and>
   sample_src ''eeg001.mat'' \<noteq> sample_dst ''eeg'' ''sub-01_task-Demo_eeg.mat'' \<and>
   lookup (sample_after ''eeg'' ''sub-01_task-Demo_eeg.mat'' ''old'')
     (parent (sample_dst ''eeg'' ''sub-01_task-Demo_eeg.mat'')) = Some Dir \<and>
   copyfile (sample_after ''eeg'' ''sub-01_task-Demo_eeg.mat'' ''old'') (sample_src ''eeg001.mat'')
     (sample_dst ''eeg'' ''sub-01_task-Demo_eeg.mat'') =
     Inr (sample_after ''eeg'' ''sub-01_task-Demo_eeg.mat'' ''abc'')"
proof -
  let ?old = "sample_after ''eeg'' ''sub-01_task-Demo_eeg.mat'' ''old''"
  let ?src = "sample_src ''eeg001.mat''"
  let ?dst = "sample_dst ''eeg'' ''sub-01_task-Demo_eeg.mat''"
  have h: "lookup ?old ?src = Some (File ''abc'')" "lookup ?old ?dst = Some (File ''old'')"
    "?src \<noteq> ?dst" "lookup ?old (parent ?dst) = Some Dir"
    by (simp_all add: sample_eval lookup_def parent_def py_def)
  have u: "?old(?dst \<mapsto> File ''abc'') = sample_after ''eeg'' ''sub-01_task-Demo_eeg.mat'' ''abc''"
    by (simp add: sample_after_def)
  note t1 = copy_exact_and_overwrites [where R = sample_root and T = "py ''Demo''" and fs = sample_fs
      and fpath = "sample_src ''bhv001.mat''"
      and fs' = "sample_after ''beh'' ''sub-01_task-Demo_beh.mat'' ''xyz''"]
  note t2 = copy_exact_and_overwrites [where R = sample_root and T = "py ''Demo''" and fs = sample_fs
      and fpath = "sample_src ''eeg001.mat''"
      and fs' = "sample_after ''eeg'' ''sub-01_task-Demo_eeg.mat'' ''abc''"]
  note t3 = copy_exact_and_overwrites [where fs = ?old and src = ?src and dst = ?dst
      and content = "''abc''" and old = "''old''"]
  have b: "transfer_beh sample_root (py ''Demo'') (sample_after ''beh'' ''sub-01_task-Demo_beh.mat'' ''xyz'')
     (sample_src ''bhv001.mat'') = Inr (sample_after ''beh'' ''sub-01_task-Demo_beh.mat'' ''xyz'')"
    by (rule t1 [THEN conjunct1, THEN mp, OF sample_beh, THEN conjunct2])
  have e: "transfer_eeg sample_root (py ''Demo'') (sample_after ''eeg'' ''sub-01_task-Demo_eeg.mat'' ''abc'')
     (sample_src ''eeg001.mat'') = Inr (sample_after ''eeg'' ''sub-01_task-Demo_eeg.mat'' ''abc'')"
    by (rule t2 [THEN conjunct2, THEN conjunct1, THEN mp, OF sample_eeg, THEN conjunct2])
  have c: "copyfile ?old ?src ?dst = Inr (?old(?dst \<mapsto> File ''abc''))"
    by (rule t3 [THEN conjunct2, THEN conjunct2, THEN conjunct1, THEN mp,
          OF conjI [OF h(1) conjI [OF h(2) conjI [OF h(3) h(4)]]]])
  from b e c sample_beh sample_eeg h show ?thesis
    unfolding u by (intro conjI)
qed

end
